theory Spec2Isabelle
  imports Main "HOL-Library.Word"
begin

section \<open>Errors, paths and the environment of the process\<close>

type_synonym path = string
type_synonym bytes = string

text \<open>
  Go errors. The operating system's errors are kept apart by what the code tests
  (\<^verbatim>\<open>os.IsNotExist\<close>) and by what the model can tell apart: a missing file, a closed
  handle, a lock held elsewhere, and any other failure. \<open>Errorf f e\<close> is
  \<^verbatim>\<open>fmt.Errorf\<close> with the format \<open>f\<close>, its \<^verbatim>\<open>%s\<close> and \<^verbatim>\<open>%d\<close> arguments already
  substituted and its \<^verbatim>\<open>%w\<close> verb, when there is one, standing for the wrapped error \<open>e\<close>.
\<close>

datatype error =
    ErrNotExist
  | ErrClosed
  | ErrWouldBlock
  | ErrOther
  | Errorf string "error option"

definition IsNotExist :: "error option \<Rightarrow> bool" where
  "IsNotExist r = (r = Some ErrNotExist)"

text \<open>
  The state document (\<^verbatim>\<open>config.State\<close>). \<^verbatim>\<open>json.RawMessage\<close> is a byte slice; the nil
  slice is the empty string. The functions' argument \<^verbatim>\<open>repoPath\<close> is written \<open>rp\<close>
  below, the name being the field's.
\<close>

record State =
  HelpScreensSeen :: "32 word"
  InstancesData :: bytes
  repoPath :: path

text \<open>
  Library functions the repository calls and does not define: symlink resolution and
  \<^verbatim>\<open>filepath.Abs\<close> (which read the file system but are never affected by what the code
  under study writes), SHA-256, and the JSON codec of \<^verbatim>\<open>config.State\<close>. \<open>Unmarshal\<close>
  decodes into a zero \<^verbatim>\<open>State\<close>; its \<open>repoPath\<close> is not serialised.
\<close>

record env =
  EvalSymlinks :: "path \<Rightarrow> error + path"
  Abs :: "path \<Rightarrow> error + path"
  Sum256 :: "bytes \<Rightarrow> 8 word list"
  Unmarshal :: "bytes \<Rightarrow> State option"
  MarshalIndent :: "State \<Rightarrow> error + bytes"

text \<open>
  \<^verbatim>\<open>filepath.Join dir name\<close> for a cleaned directory and a single clean element, the only
  way the code calls it: one separator between the two, none added after a directory
  that ends in one (the root), and an empty directory ignored.
\<close>

definition sep :: "path \<Rightarrow> path" where
  "sep dir = (if dir = [] then [] else if last dir = CHR ''/'' then dir else dir @ ''/'')"

definition Join :: "path \<Rightarrow> path \<Rightarrow> path" where
  "Join dir name = sep dir @ name"

section \<open>Repository identity\<close>

definition GetCanonicalRepoPath :: "env \<Rightarrow> path \<Rightarrow> error + path" where
  "GetCanonicalRepoPath E p =
     (case EvalSymlinks E p of
        Inl err \<Rightarrow> Inl (Errorf ''failed to resolve symlinks: %w'' (Some err))
      | Inr resolved \<Rightarrow>
          (case Abs E resolved of
             Inl err \<Rightarrow> Inl (Errorf ''failed to get absolute path: %w'' (Some err))
           | Inr absPath \<Rightarrow> Inr absPath))"

text \<open>\<^verbatim>\<open>fmt.Sprintf("%x", b)\<close> on a byte slice: two lowercase hexadecimal digits per byte.\<close>

definition hexdigit :: "nat \<Rightarrow> char" where
  "hexdigit n = ''0123456789abcdef'' ! n"

definition hex_byte :: "8 word \<Rightarrow> string" where
  "hex_byte b = [hexdigit (unat b div 16), hexdigit (unat b mod 16)]"

definition sprintf_x :: "8 word list \<Rightarrow> string" where
  "sprintf_x bs = concat (map hex_byte bs)"

definition GetRepoHash :: "env \<Rightarrow> path \<Rightarrow> error + string" where
  "GetRepoHash E rp =
     (case GetCanonicalRepoPath E rp of
        Inl err \<Rightarrow> Inl err
      | Inr canonical \<Rightarrow> Inr (sprintf_x (take 4 (Sum256 E canonical))))"

text \<open>
  An environment for the examples. \<^verbatim>\<open>/tmp/link\<close> is a symbolic link to
  \<^verbatim>\<open>/tmp/real-repo\<close>; \<^verbatim>\<open>/tmp/real-repo\<close> and \<^verbatim>\<open>/repo\<close> exist; the empty path
  resolves to \<^verbatim>\<open>.\<close>, as \<^verbatim>\<open>filepath.EvalSymlinks\<close> has it; every other path does not
  exist. The working directory is \<^verbatim>\<open>/home/user\<close>. The digest is SHA-256 on
  \<^verbatim>\<open>/tmp/real-repo\<close> and a constant elsewhere. The codec is \<^verbatim>\<open>encoding/json\<close> on the
  three documents and the three states below and fails on everything else;
  \<^verbatim>\<open>json.MarshalIndent\<close> compacts and re-indents the raw instances.
\<close>

definition demo_EvalSymlinks :: "path \<Rightarrow> error + path" where
  "demo_EvalSymlinks p =
     (if p = ''/tmp/link'' \<or> p = ''/tmp/real-repo'' then Inr ''/tmp/real-repo''
      else if p = ''/repo'' then Inr ''/repo''
      else if p = [] then Inr ''.''
      else Inl ErrNotExist)"

definition demo_Abs :: "path \<Rightarrow> error + path" where
  "demo_Abs p = (if p = ''.'' then Inr ''/home/user'' else Inr p)"

definition demo_Sum256 :: "bytes \<Rightarrow> 8 word list" where
  "demo_Sum256 s =
     (if s = ''/tmp/real-repo''
      then [0x60, 0xfa, 0x31, 0x47, 0xcc, 0xd0, 0x6b, 0x85, 0x78, 0x45, 0x7b, 0x6a,
            0x3c, 0x6d, 0x01, 0x1b, 0x91, 0x4f, 0x44, 0x75, 0x2e, 0x8f, 0x07, 0x9a,
            0x45, 0x8a, 0x2a, 0x6c, 0xf5, 0x7a, 0xca, 0x2b]
      else replicate 32 0)"

definition nl :: string where
  "nl = [CHR 0x0A]"

definition raw_one :: bytes where
  "raw_one = ''['' @ nl @ ''    1'' @ nl @ ''  ]''"

definition doc_seen3 :: bytes where
  \<open>doc_seen3 = ''{'' @ nl @ ''  "help_screens_seen": 3,'' @ nl
                @ ''  "instances": '' @ raw_one @ nl @ ''}''\<close>

definition doc_reset3 :: bytes where
  \<open>doc_reset3 = ''{'' @ nl @ ''  "help_screens_seen": 3,'' @ nl
                 @ ''  "instances": []'' @ nl @ ''}''\<close>

definition doc_default :: bytes where
  \<open>doc_default = ''{'' @ nl @ ''  "help_screens_seen": 0,'' @ nl
                  @ ''  "instances": []'' @ nl @ ''}''\<close>

definition demo_Unmarshal :: "bytes \<Rightarrow> State option" where
  "demo_Unmarshal d =
     (if d = doc_seen3
        then Some \<lparr>HelpScreensSeen = 3, InstancesData = raw_one, repoPath = []\<rparr>
      else if d = doc_reset3
        then Some \<lparr>HelpScreensSeen = 3, InstancesData = ''[]'', repoPath = []\<rparr>
      else if d = doc_default
        then Some \<lparr>HelpScreensSeen = 0, InstancesData = ''[]'', repoPath = []\<rparr>
      else None)"

definition demo_MarshalIndent :: "State \<Rightarrow> error + bytes" where
  "demo_MarshalIndent s =
     (if HelpScreensSeen s = 3 \<and> (InstancesData s = raw_one \<or> InstancesData s = ''[1]'')
        then Inr doc_seen3
      else if HelpScreensSeen s = 3 \<and> InstancesData s = ''[]'' then Inr doc_reset3
      else if HelpScreensSeen s = 0 \<and> InstancesData s = ''[]'' then Inr doc_default
      else Inl ErrOther)"

definition demo_env :: env where
  "demo_env = \<lparr>EvalSymlinks = demo_EvalSymlinks, Abs = demo_Abs, Sum256 = demo_Sum256,
                Unmarshal = demo_Unmarshal, MarshalIndent = demo_MarshalIndent\<rparr>"

section \<open>The file system\<close>

text \<open>
  Every call the code makes to the operating system is one constructor; the world keeps
  the calls made so far, in order. Permissions are written in decimal:
  \<^verbatim>\<open>0755\<close> is 493 and \<^verbatim>\<open>0644\<close> is 420.
\<close>

datatype syscall =
    SysMkdirAll path nat
  | SysStat path
  | SysReadFile path
  | SysWriteFile path bytes nat
  | SysRename path path
  | SysRemove path
  | SysOpenFile path nat
  | SysFlock nat
  | SysClose nat
  | SysTruncate nat nat
  | SysSeek nat nat
  | SysWrite nat bytes
  | SysSync nat

text \<open>
  The world: regular files by path, directories, the open file handles (each with the
  path it was opened on and its offset), the handle that holds the exclusive
  \<^verbatim>\<open>flock\<close> on a file, the clock, and the injected faults. \<open>faults w n\<close> decides the
  system call number \<open>n\<close> of the run (the one made when \<open>n\<close> calls are in the trace):
  0 lets the call run, anything else makes it fail for a reason the files do not show
  (permissions, a full disk, an I/O error). Locks are kept by path, which is exact as
  long as no file is unlinked or renamed while a handle on it is open; the code unlinks
  the lock file only after closing its own handle.
\<close>

record world =
  files :: "path \<rightharpoonup> bytes"
  dirs :: "path set"
  handles :: "nat \<rightharpoonup> path \<times> nat"
  next_handle :: nat
  flocks :: "path \<rightharpoonup> nat"
  clock :: int
  faults :: "nat \<Rightarrow> nat"
  trace :: "syscall list"

text \<open>The fault injected into the call made \<open>k\<close> calls from now.\<close>

definition fault_at :: "nat \<Rightarrow> world \<Rightarrow> nat" where
  "fault_at k w = faults w (length (trace w) + k)"

text \<open>No fault is injected from now on.\<close>

definition no_faults :: "world \<Rightarrow> bool" where
  "no_faults w = (\<forall>k. fault_at k w = 0)"

definition step :: "syscall \<Rightarrow> world \<Rightarrow> nat \<times> world" where
  "step c w = (fault_at 0 w, w\<lparr>trace := trace w @ [c]\<rparr>)"

definition os_MkdirAll :: "path \<Rightarrow> nat \<Rightarrow> world \<Rightarrow> error option \<times> world" where
  "os_MkdirAll p perm w =
     (case step (SysMkdirAll p perm) w of (f, w1) \<Rightarrow>
        if f \<noteq> 0 then (Some ErrOther, w1)
        else (None, w1\<lparr>dirs := insert p (dirs w1)\<rparr>))"

definition os_Stat :: "path \<Rightarrow> world \<Rightarrow> error option \<times> world" where
  "os_Stat p w =
     (case step (SysStat p) w of (f, w1) \<Rightarrow>
        if f \<noteq> 0 then (Some ErrOther, w1)
        else if files w1 p = None then (Some ErrNotExist, w1)
        else (None, w1))"

definition os_ReadFile :: "path \<Rightarrow> world \<Rightarrow> (error + bytes) \<times> world" where
  "os_ReadFile p w =
     (case step (SysReadFile p) w of (f, w1) \<Rightarrow>
        if f \<noteq> 0 then (Inl ErrOther, w1)
        else (case files w1 p of None \<Rightarrow> (Inl ErrNotExist, w1) | Some d \<Rightarrow> (Inr d, w1)))"

text \<open>
  \<^verbatim>\<open>os.WriteFile\<close> opens the file (creating or truncating it), writes and closes. Fault 1
  is a failure to open, which changes nothing; fault \<open>k + 2\<close> is a failure after the
  file was truncated and \<open>k\<close> bytes were written.
\<close>

definition os_WriteFile :: "path \<Rightarrow> bytes \<Rightarrow> nat \<Rightarrow> world \<Rightarrow> error option \<times> world" where
  "os_WriteFile p d perm w =
     (case step (SysWriteFile p d perm) w of (f, w1) \<Rightarrow>
        (case f of
           0 \<Rightarrow> (None, w1\<lparr>files := (files w1)(p \<mapsto> d)\<rparr>)
         | Suc 0 \<Rightarrow> (Some ErrOther, w1)
         | Suc (Suc k) \<Rightarrow> (Some ErrOther, w1\<lparr>files := (files w1)(p \<mapsto> take k d)\<rparr>)))"

text \<open>\<^verbatim>\<open>rename(2)\<close> is atomic: it moves the file over the target or changes nothing.\<close>

definition os_Rename :: "path \<Rightarrow> path \<Rightarrow> world \<Rightarrow> error option \<times> world" where
  "os_Rename src dst w =
     (case step (SysRename src dst) w of (f, w1) \<Rightarrow>
        if f \<noteq> 0 then (Some ErrOther, w1)
        else (case files w1 src of
                None \<Rightarrow> (Some ErrNotExist, w1)
              | Some d \<Rightarrow> (None, w1\<lparr>files := ((files w1)(src := None))(dst \<mapsto> d)\<rparr>)))"

text \<open>
  \<^verbatim>\<open>os.Remove\<close> unlinks the file; a file created later at the same path is a new one,
  which nobody has locked.
\<close>

definition os_Remove :: "path \<Rightarrow> world \<Rightarrow> error option \<times> world" where
  "os_Remove p w =
     (case step (SysRemove p) w of (f, w1) \<Rightarrow>
        if f \<noteq> 0 then (Some ErrOther, w1)
        else if files w1 p = None then (Some ErrNotExist, w1)
        else (None, w1\<lparr>files := (files w1)(p := None), flocks := (flocks w1)(p := None)\<rparr>))"

text \<open>\<^verbatim>\<open>os.OpenFile(p, os.O_CREATE|os.O_RDWR, perm)\<close>: a new handle at offset 0.\<close>

definition os_OpenFile :: "path \<Rightarrow> nat \<Rightarrow> world \<Rightarrow> (error + nat) \<times> world" where
  "os_OpenFile p perm w =
     (case step (SysOpenFile p perm) w of (f, w1) \<Rightarrow>
        if f \<noteq> 0 then (Inl ErrOther, w1)
        else (Inr (next_handle w1),
              w1\<lparr>files := (case files w1 p of None \<Rightarrow> (files w1)(p \<mapsto> []) | Some _ \<Rightarrow> files w1),
                 handles := (handles w1)(next_handle w1 \<mapsto> (p, 0)),
                 next_handle := Suc (next_handle w1)\<rparr>))"

text \<open>\<^verbatim>\<open>syscall.Flock(fd, LOCK_EX|LOCK_NB)\<close>.\<close>

definition sys_Flock :: "nat \<Rightarrow> world \<Rightarrow> error option \<times> world" where
  "sys_Flock h w =
     (case step (SysFlock h) w of (f, w1) \<Rightarrow>
        if f \<noteq> 0 then (Some ErrOther, w1)
        else (case handles w1 h of
                None \<Rightarrow> (Some ErrClosed, w1)
              | Some (p, off) \<Rightarrow>
                  (case flocks w1 p of
                     None \<Rightarrow> (None, w1\<lparr>flocks := (flocks w1)(p \<mapsto> h)\<rparr>)
                   | Some h' \<Rightarrow> if h' = h then (None, w1) else (Some ErrWouldBlock, w1))))"

text \<open>
  \<^verbatim>\<open>(*os.File).Close\<close>: a second close of the same handle fails; a close that reports an
  error has released the descriptor, and with it the lock, all the same.
\<close>

definition release_handle :: "nat \<Rightarrow> world \<Rightarrow> world" where
  "release_handle h w =
     (case handles w h of
        None \<Rightarrow> w
      | Some (p, off) \<Rightarrow>
          w\<lparr>handles := (handles w)(h := None),
            flocks := (if flocks w p = Some h then (flocks w)(p := None) else flocks w)\<rparr>)"

definition file_Close :: "nat \<Rightarrow> world \<Rightarrow> error option \<times> world" where
  "file_Close h w =
     (case step (SysClose h) w of (f, w1) \<Rightarrow>
        if handles w1 h = None then (Some ErrClosed, w1)
        else if f \<noteq> 0 then (Some ErrOther, release_handle h w1)
        else (None, release_handle h w1))"

definition file_Truncate :: "nat \<Rightarrow> nat \<Rightarrow> world \<Rightarrow> error option \<times> world" where
  "file_Truncate h n w =
     (case step (SysTruncate h n) w of (f, w1) \<Rightarrow>
        if f \<noteq> 0 then (Some ErrOther, w1)
        else (case handles w1 h of
                None \<Rightarrow> (Some ErrClosed, w1)
              | Some (p, off) \<Rightarrow>
                  (case files w1 p of
                     None \<Rightarrow> (None, w1)
                   | Some d \<Rightarrow>
                       (None, w1\<lparr>files := (files w1)(p \<mapsto> take n (d @ replicate (n - length d) (CHR 0x00)))\<rparr>))))"

text \<open>\<^verbatim>\<open>(*os.File).Seek(off, io.SeekStart)\<close>.\<close>

definition file_Seek :: "nat \<Rightarrow> nat \<Rightarrow> world \<Rightarrow> error option \<times> world" where
  "file_Seek h off w =
     (case step (SysSeek h off) w of (f, w1) \<Rightarrow>
        if f \<noteq> 0 then (Some ErrOther, w1)
        else (case handles w1 h of
                None \<Rightarrow> (Some ErrClosed, w1)
              | Some (p, _) \<Rightarrow> (None, w1\<lparr>handles := (handles w1)(h \<mapsto> (p, off))\<rparr>)))"

text \<open>Writing \<open>d\<close> into a file at an offset, the gap filled with zero bytes.\<close>

definition write_at :: "bytes \<Rightarrow> nat \<Rightarrow> bytes \<Rightarrow> bytes" where
  "write_at old off d =
     take off (old @ replicate (off - length old) (CHR 0x00)) @ d @ drop (off + length d) old"

definition file_Write :: "nat \<Rightarrow> bytes \<Rightarrow> world \<Rightarrow> error option \<times> world" where
  "file_Write h d w =
     (case step (SysWrite h d) w of (f, w1) \<Rightarrow>
        if f \<noteq> 0 then (Some ErrOther, w1)
        else (case handles w1 h of
                None \<Rightarrow> (Some ErrClosed, w1)
              | Some (p, off) \<Rightarrow>
                  (case files w1 p of
                     None \<Rightarrow> (None, w1\<lparr>handles := (handles w1)(h \<mapsto> (p, off + length d))\<rparr>)
                   | Some old \<Rightarrow>
                       (None, w1\<lparr>files := (files w1)(p \<mapsto> write_at old off d),
                                 handles := (handles w1)(h \<mapsto> (p, off + length d))\<rparr>))))"

definition file_Sync :: "nat \<Rightarrow> world \<Rightarrow> error option \<times> world" where
  "file_Sync h w =
     (case step (SysSync h) w of (f, w1) \<Rightarrow>
        if f \<noteq> 0 then (Some ErrOther, w1)
        else if handles w1 h = None then (Some ErrClosed, w1)
        else (None, w1))"

text \<open>\<^verbatim>\<open>%d\<close>: an integer in decimal.\<close>

fun itoa_nat :: "nat \<Rightarrow> string" where
  "itoa_nat n =
     (if n < 10 then [''0123456789'' ! n]
      else itoa_nat (n div 10) @ [''0123456789'' ! (n mod 10)])"

declare itoa_nat.simps [simp del]

definition itoa :: "int \<Rightarrow> string" where
  "itoa i = (if i < 0 then CHR ''-'' # itoa_nat (nat (- i)) else itoa_nat (nat i))"

section \<open>The per-repository store\<close>

definition StateFileName :: string where
  "StateFileName = ''state.json''"

definition StateDirName :: string where
  "StateDirName = ''.claude-squad''"

definition DefaultState :: State where
  "DefaultState = \<lparr>HelpScreensSeen = 0, InstancesData = ''[]'', repoPath = []\<rparr>"

text \<open>Calls to the logger are left out: they have no effect on what the code returns or stores.\<close>

definition GetStateDir :: "env \<Rightarrow> path \<Rightarrow> world \<Rightarrow> (error + path) \<times> world" where
  "GetStateDir E rp w =
     (case GetCanonicalRepoPath E rp of
        Inl err \<Rightarrow> (Inl (Errorf ''failed to get canonical repo path: %w'' (Some err)), w)
      | Inr canonical \<Rightarrow>
          (let stateDir = Join canonical StateDirName in
           case os_MkdirAll stateDir 493 w of
             (Some err, w1) \<Rightarrow>
               (Inl (Errorf (''failed to create state directory '' @ stateDir
                              @ '': %w (check write permissions)'') (Some err)), w1)
           | (None, w1) \<Rightarrow>
               (let gitignorePath = Join stateDir ''.gitignore'' in
                case os_Stat gitignorePath w1 of (err, w2) \<Rightarrow>
                  if IsNotExist err
                  then (case os_WriteFile gitignorePath [CHR ''*'', CHR 0x0A] 420 w2 of
                          (_, w3) \<Rightarrow> (Inr stateDir, w3))
                  else (Inr stateDir, w2))))"

text \<open>
  The paths both \<^verbatim>\<open>LoadState\<close> and \<^verbatim>\<open>SaveState\<close> compute from the state directory
  (their local variables \<^verbatim>\<open>statePath\<close>, \<^verbatim>\<open>backupPath\<close> and \<^verbatim>\<open>corruptedPath\<close>).
\<close>

definition statePath :: "path \<Rightarrow> path" where
  "statePath stateDir = Join stateDir StateFileName"

definition backupPath :: "path \<Rightarrow> path" where
  "backupPath stateDir = statePath stateDir @ ''.bak''"

definition corruptedPath :: "path \<Rightarrow> int \<Rightarrow> path" where
  "corruptedPath stateDir now = statePath stateDir @ ''.corrupted.'' @ itoa now"

definition SaveState :: "env \<Rightarrow> State \<Rightarrow> path \<Rightarrow> world \<Rightarrow> error option \<times> world" where
  "SaveState E state rp w =
     (case GetStateDir E rp w of
        (Inl err, w1) \<Rightarrow> (Some (Errorf ''failed to get state directory: %w'' (Some err)), w1)
      | (Inr stateDir, w1) \<Rightarrow>
          (case MarshalIndent E state of
             Inl err \<Rightarrow> (Some (Errorf ''failed to marshal state: %w'' (Some err)), w1)
           | Inr data \<Rightarrow>
               (let w4 = (case os_Stat (statePath stateDir) w1 of
                            (Some _, w2) \<Rightarrow> w2
                          | (None, w2) \<Rightarrow>
                              (case os_Rename (statePath stateDir) (backupPath stateDir) w2 of
                                 (None, w3) \<Rightarrow> w3
                               | (Some _, w3) \<Rightarrow>
                                   (case os_ReadFile (statePath stateDir) w3 of
                                      (Inr existing, w3') \<Rightarrow>
                                        snd (os_WriteFile (backupPath stateDir) existing 420 w3')
                                    | (Inl _, w3') \<Rightarrow> w3')))
                in case os_WriteFile (statePath stateDir) data 420 w4 of
                     (Some err, w5) \<Rightarrow>
                       (Some (Errorf ''failed to write state file: %w'' (Some err)),
                        case os_Stat (backupPath stateDir) w5 of
                          (None, w6) \<Rightarrow> snd (os_Rename (backupPath stateDir) (statePath stateDir) w6)
                        | (Some _, w6) \<Rightarrow> w6)
                   | (None, w5) \<Rightarrow> (None, w5))))"

definition LoadState :: "env \<Rightarrow> path \<Rightarrow> world \<Rightarrow> State \<times> world" where
  "LoadState E rp w =
     (case GetStateDir E rp w of
        (Inl err, w1) \<Rightarrow> (DefaultState, w1)
      | (Inr stateDir, w1) \<Rightarrow>
          (case os_ReadFile (statePath stateDir) w1 of
             (Inl err, w2) \<Rightarrow>
               if IsNotExist (Some err)
               then (let defaultState = DefaultState in
                     case SaveState E defaultState rp w2 of (_, w3) \<Rightarrow> (defaultState, w3))
               else (DefaultState\<lparr>repoPath := rp\<rparr>, w2)
           | (Inr data, w2) \<Rightarrow>
               (case Unmarshal E data of
                  None \<Rightarrow>
                    (case os_Rename (statePath stateDir) (corruptedPath stateDir (clock w2)) w2 of
                       (_, w3) \<Rightarrow>
                         (case os_ReadFile (backupPath stateDir) w3 of
                            (Inr backupData, w4) \<Rightarrow>
                              (case Unmarshal E backupData of
                                 Some backupState \<Rightarrow> (backupState\<lparr>repoPath := rp\<rparr>, w4)
                               | None \<Rightarrow> (DefaultState\<lparr>repoPath := rp\<rparr>, w4))
                          | (Inl _, w4) \<Rightarrow> (DefaultState\<lparr>repoPath := rp\<rparr>, w4)))
                | Some state \<Rightarrow> (state\<lparr>repoPath := rp\<rparr>, w2))))"

text \<open>The methods of \<^verbatim>\<open>*State\<close>: the receiver is returned updated.\<close>

definition SaveInstances :: "env \<Rightarrow> State \<Rightarrow> bytes \<Rightarrow> world \<Rightarrow> error option \<times> State \<times> world" where
  "SaveInstances E s instancesJSON w =
     (let s' = s\<lparr>InstancesData := instancesJSON\<rparr> in
      case SaveState E s' (repoPath s') w of (err, w') \<Rightarrow> (err, s', w'))"

definition GetInstances :: "State \<Rightarrow> bytes" where
  "GetInstances s = InstancesData s"

definition DeleteAllInstances :: "env \<Rightarrow> State \<Rightarrow> world \<Rightarrow> error option \<times> State \<times> world" where
  "DeleteAllInstances E s w =
     (let s' = s\<lparr>InstancesData := ''[]''\<rparr> in
      case SaveState E s' (repoPath s') w of (err, w') \<Rightarrow> (err, s', w'))"

definition GetHelpScreensSeen :: "State \<Rightarrow> 32 word" where
  "GetHelpScreensSeen s = HelpScreensSeen s"

definition SetHelpScreensSeen :: "env \<Rightarrow> State \<Rightarrow> 32 word \<Rightarrow> world \<Rightarrow> error option \<times> State \<times> world" where
  "SetHelpScreensSeen E s seen w =
     (let s' = s\<lparr>HelpScreensSeen := seen\<rparr> in
      case SaveState E s' (repoPath s') w of (err, w') \<Rightarrow> (err, s', w'))"

text \<open>
  Modelled from the spec: the \<^verbatim>\<open>session\<close> package, whose storage wraps the state, is
  not among the sources; its \<^verbatim>\<open>DeleteAllInstances\<close> is taken to be the state's
  ("delete all instances from the store"). This is the store part of the reset command
  of \<^verbatim>\<open>main.go\<close>: the canonical path of the current directory, \<open>LoadState\<close>, then
  \<open>DeleteAllInstances\<close>. The steps that follow in the command (tmux sessions, worktrees,
  the daemon) do not write the state document and are left out.
\<close>

definition resetCmd :: "env \<Rightarrow> path \<Rightarrow> world \<Rightarrow> error option \<times> world" where
  "resetCmd E currentDir w =
     (case GetCanonicalRepoPath E currentDir of
        Inl err \<Rightarrow> (Some (Errorf ''failed to get canonical repo path: %w'' (Some err)), w)
      | Inr rp \<Rightarrow>
          (case LoadState E rp w of (state, w1) \<Rightarrow>
             (case DeleteAllInstances E state w1 of
                (Some err, _, w2) \<Rightarrow>
                  (Some (Errorf ''failed to reset storage: %w'' (Some err)), w2)
              | (None, _, w2) \<Rightarrow> (None, w2))))"

section \<open>The process lock\<close>

text \<open>\<^verbatim>\<open>lock.Lock\<close>; its field \<^verbatim>\<open>file\<close> is \<open>lockFile\<close> here, \<open>None\<close> for nil.\<close>

record Lock =
  lockFile :: "nat option"
  filePath :: path

text \<open>The Unix build of \<^verbatim>\<open>acquireLockPlatform\<close>.\<close>

definition acquireLockPlatform :: "nat \<Rightarrow> world \<Rightarrow> error option \<times> world" where
  "acquireLockPlatform f w =
     (case sys_Flock f w of
        (Some err, w1) \<Rightarrow> (Some (Errorf ''lock is held by another process: %w'' (Some err)), w1)
      | (None, w1) \<Rightarrow> (None, w1))"

text \<open>
  \<^verbatim>\<open>strings.TrimSpace\<close> on the bytes of a string: the six ASCII white-space characters
  and the UTF-8 encodings of the other code points of \<^verbatim>\<open>unicode.IsSpace\<close> (U+0085,
  U+00A0, U+1680, U+2000 to U+200A, U+2028, U+2029, U+202F, U+205F, U+3000) are
  removed from both ends.
\<close>

definition is_space1 :: "char \<Rightarrow> bool" where
  "is_space1 a = (a \<in> set [CHR 0x09, CHR 0x0A, CHR 0x0B, CHR 0x0C, CHR 0x0D, CHR 0x20])"

definition is_space2 :: "char \<Rightarrow> char \<Rightarrow> bool" where
  "is_space2 a b = (a = CHR 0xC2 \<and> (b = CHR 0x85 \<or> b = CHR 0xA0))"

definition is_space3 :: "char \<Rightarrow> char \<Rightarrow> char \<Rightarrow> bool" where
  "is_space3 a b c =
     ((a = CHR 0xE1 \<and> b = CHR 0x9A \<and> c = CHR 0x80)
      \<or> (a = CHR 0xE2 \<and> b = CHR 0x80
          \<and> ((0x80 :: nat) \<le> of_char c \<and> of_char c \<le> (0x8A :: nat) \<or> c = CHR 0xA8 \<or> c = CHR 0xA9 \<or> c = CHR 0xAF))
      \<or> (a = CHR 0xE2 \<and> b = CHR 0x81 \<and> c = CHR 0x9F)
      \<or> (a = CHR 0xE3 \<and> b = CHR 0x80 \<and> c = CHR 0x80))"

fun trim_left :: "string \<Rightarrow> string" where
  "trim_left (a # b # c # s) =
     (if is_space1 a then trim_left (b # c # s)
      else if is_space2 a b then trim_left (c # s)
      else if is_space3 a b c then trim_left s
      else a # b # c # s)"
| "trim_left [a, b] =
     (if is_space1 a then trim_left [b] else if is_space2 a b then [] else [a, b])"
| "trim_left [a] = (if is_space1 a then [] else [a])"
| "trim_left [] = []"

text \<open>The same from the end, on the reversed string.\<close>

fun trim_rev :: "string \<Rightarrow> string" where
  "trim_rev (c # b # a # s) =
     (if is_space1 c then trim_rev (b # a # s)
      else if is_space2 b c then trim_rev (a # s)
      else if is_space3 a b c then trim_rev s
      else c # b # a # s)"
| "trim_rev [c, b] =
     (if is_space1 c then trim_rev [b] else if is_space2 b c then [] else [c, b])"
| "trim_rev [c] = (if is_space1 c then [] else [c])"
| "trim_rev [] = []"

definition TrimSpace :: "string \<Rightarrow> string" where
  "TrimSpace s = rev (trim_rev (rev (trim_left s)))"

text \<open>
  \<^verbatim>\<open>strconv.Atoi\<close> with a 64-bit \<^verbatim>\<open>int\<close>: an optional sign, at least one decimal
  digit, nothing else, and a value in range.
\<close>

definition is_digit :: "char \<Rightarrow> bool" where
  "is_digit c = ((48 :: nat) \<le> of_char c \<and> of_char c \<le> (57 :: nat))"

definition digits_val :: "string \<Rightarrow> nat" where
  "digits_val ds = foldl (\<lambda>acc c. acc * 10 + (of_char c - 48)) (0 :: nat) ds"

definition Atoi :: "string \<Rightarrow> int option" where
  "Atoi s =
     (let neg = (s \<noteq> [] \<and> hd s = CHR ''-'');
          ds = (if s \<noteq> [] \<and> (hd s = CHR ''-'' \<or> hd s = CHR ''+'') then tl s else s)
      in if ds = [] \<or> \<not> list_all is_digit ds then None
         else (let v = (if neg then - int (digits_val ds) else int (digits_val ds))
               in if v < - (2 ^ 63) \<or> 2 ^ 63 - 1 < v then None else Some v))"

definition readPIDFromLockFile :: "path \<Rightarrow> world \<Rightarrow> string \<times> world" where
  "readPIDFromLockFile lockPath w =
     (case os_ReadFile lockPath w of
        (Inl _, w1) \<Rightarrow> ([], w1)
      | (Inr data, w1) \<Rightarrow>
          (let pidStr = TrimSpace data in
           case Atoi pidStr of None \<Rightarrow> ([], w1) | Some _ \<Rightarrow> (pidStr, w1)))"

text \<open>\<open>pid\<close> is what \<^verbatim>\<open>os.Getpid\<close> returns in the calling process.\<close>

definition AcquireLock :: "env \<Rightarrow> int \<Rightarrow> path \<Rightarrow> world \<Rightarrow> (error + Lock) \<times> world" where
  "AcquireLock E pid rp w =
     (case GetStateDir E rp w of
        (Inl err, w1) \<Rightarrow> (Inl (Errorf ''failed to get state directory: %w'' (Some err)), w1)
      | (Inr stateDir, w1) \<Rightarrow>
          (let lockPath = Join stateDir ''cs.lock'' in
           case os_OpenFile lockPath 420 w1 of
             (Inl err, w2) \<Rightarrow> (Inl (Errorf ''failed to open lock file: %w'' (Some err)), w2)
           | (Inr f, w2) \<Rightarrow>
               (case acquireLockPlatform f w2 of
                  (Some err, w3) \<Rightarrow>
                    (case file_Close f w3 of (_, w4) \<Rightarrow>
                       case readPIDFromLockFile lockPath w4 of (existingPID, w5) \<Rightarrow>
                         if existingPID \<noteq> []
                         then (Inl (Errorf (''another cs instance is running in this repo (PID ''
                                             @ existingPID @ '')'') None), w5)
                         else (Inl (Errorf ''failed to acquire lock: %w'' (Some err)), w5))
                | (None, w3) \<Rightarrow>
                    (let w7 = (case file_Truncate f 0 w3 of
                                 (Some _, w4) \<Rightarrow> w4
                               | (None, w4) \<Rightarrow>
                                   (case file_Seek f 0 w4 of
                                      (Some _, w5) \<Rightarrow> w5
                                    | (None, w5) \<Rightarrow>
                                        (case file_Write f (itoa pid @ [CHR 0x0A]) w5 of
                                           (_, w6) \<Rightarrow> snd (file_Sync f w6))))
                     in (Inr \<lparr>lockFile = Some f, filePath = lockPath\<rparr>, w7)))))"

definition Release :: "Lock \<Rightarrow> world \<Rightarrow> error option \<times> Lock \<times> world" where
  "Release l w =
     (case lockFile l of
        None \<Rightarrow> (None, l, w)
      | Some f \<Rightarrow>
          (case file_Close f w of
             (Some err, w1) \<Rightarrow> (Some (Errorf ''failed to close lock file: %w'' (Some err)), l, w1)
           | (None, w1) \<Rightarrow>
               (case os_Remove (filePath l) w1 of (err, w2) \<Rightarrow>
                  if err \<noteq> None \<and> \<not> IsNotExist err
                  then (Some (Errorf ''failed to remove lock file: %w'' err), l, w2)
                  else (None, l\<lparr>lockFile := None\<rparr>, w2))))"

section \<open>The auto-confirm daemon\<close>

text \<open>
  Modelled from the spec: the \<^verbatim>\<open>session\<close> package (\<^verbatim>\<open>Instance\<close>, \<^verbatim>\<open>Storage\<close>) is not
  among the sources. An instance carries the fields of the spec's data model that the
  daemon reads or writes: its title, its status, whether the daemon may act on it, and
  whether it has been started. \<^verbatim>\<open>LoadInstances\<close> returns pointers, so an assignment
  made through the loop variable of \<^verbatim>\<open>RunDaemon\<close> changes the instance in the list.
\<close>

datatype Status = Running | Ready | Loading | Paused

record Instance =
  Title :: string
  status :: Status
  AutoYes :: bool
  started :: bool

text \<open>
  The methods of the missing package that \<^verbatim>\<open>RunDaemon\<close> calls are parameters. They
  work on the terminal multiplexer and on git, a state of type \<open>'x\<close> here, and may
  change the instance they are called on. \<open>IsStarted\<close> and \<open>IsPaused\<close> are the methods
  \<^verbatim>\<open>Started()\<close> and \<^verbatim>\<open>Paused()\<close>; \<open>HasUpdated\<close> returns \<^verbatim>\<open>(updated, hasPrompt)\<close>.
\<close>

record 'x session =
  NewStorage :: "State \<Rightarrow> error option"
  LoadInstances :: "State \<Rightarrow> 'x \<Rightarrow> (error + Instance list) \<times> 'x"
  StoreInstances :: "State \<Rightarrow> Instance list \<Rightarrow> world \<Rightarrow> 'x \<Rightarrow> error option \<times> world \<times> 'x"
  IsStarted :: "Instance \<Rightarrow> bool"
  IsPaused :: "Instance \<Rightarrow> bool"
  HasUpdated :: "Instance \<Rightarrow> 'x \<Rightarrow> (bool \<times> bool) \<times> Instance \<times> 'x"
  TapEnter :: "Instance \<Rightarrow> 'x \<Rightarrow> Instance \<times> 'x"
  UpdateDiffStats :: "Instance \<Rightarrow> 'x \<Rightarrow> error option \<times> Instance \<times> 'x"

text \<open>The method calls the daemon makes, by the position of the instance in the list.\<close>

datatype call =
    CallHasUpdated nat bool
  | CallTapEnter nat
  | CallUpdateDiffStats nat

text \<open>
  The start of \<^verbatim>\<open>RunDaemon\<close>, up to the loop that sets \<^verbatim>\<open>AutoYes\<close>: the state, the
  instances and what is left of the two worlds, or the error returned.
\<close>

definition daemon_launch ::
  "env \<Rightarrow> 'x session \<Rightarrow> path \<Rightarrow> world \<Rightarrow> 'x \<Rightarrow> (error + State \<times> Instance list) \<times> world \<times> 'x" where
  "daemon_launch E M rp w x =
     (case LoadState E rp w of (state, w1) \<Rightarrow>
        (case NewStorage M state of
           Some err \<Rightarrow> (Inl (Errorf ''failed to initialize storage: %w'' (Some err)), w1, x)
         | None \<Rightarrow>
             (case LoadInstances M state x of
                (Inl err, x1) \<Rightarrow> (Inl (Errorf ''failed to load instacnes: %w'' (Some err)), w1, x1)
              | (Inr instances, x1) \<Rightarrow>
                  (Inr (state, map (\<lambda>instance. instance\<lparr>AutoYes := True\<rparr>) instances), w1, x1))))"

text \<open>
  One pass of the inner \<^verbatim>\<open>for\<close> loop over the instances, the first of them at position
  \<open>k\<close>. The error of \<^verbatim>\<open>UpdateDiffStats\<close> is only logged.
\<close>

fun daemon_tick ::
  "'x session \<Rightarrow> nat \<Rightarrow> Instance list \<Rightarrow> 'x \<Rightarrow> Instance list \<times> 'x \<times> call list" where
  "daemon_tick M k [] x = ([], x, [])"
| "daemon_tick M k (instance # rest) x =
     (if IsStarted M instance \<and> \<not> IsPaused M instance
      then (case HasUpdated M instance x of
              ((_, hasPrompt), i1, x1) \<Rightarrow>
                if hasPrompt
                then (case TapEnter M i1 x1 of
                        (i2, x2) \<Rightarrow>
                          (case UpdateDiffStats M i2 x2 of
                             (_, i3, x3) \<Rightarrow>
                               (case daemon_tick M (Suc k) rest x3 of
                                  (is, x', cs) \<Rightarrow>
                                    (i3 # is, x',
                                     CallHasUpdated k True # CallTapEnter k
                                       # CallUpdateDiffStats k # cs))))
                else (case daemon_tick M (Suc k) rest x1 of
                        (is, x', cs) \<Rightarrow> (i1 # is, x', CallHasUpdated k False # cs)))
      else (case daemon_tick M (Suc k) rest x of
              (is, x', cs) \<Rightarrow> (instance # is, x', cs)))"

text \<open>
  The outer loop runs its body, then stops if the stop channel is closed, then waits for
  the timer. \<open>n\<close> is the number of times the timer fires before the signal arrives: the
  body runs \<open>n + 1\<close> times.
\<close>

fun daemon_loop ::
  "'x session \<Rightarrow> nat \<Rightarrow> Instance list \<Rightarrow> 'x \<Rightarrow> Instance list \<times> 'x \<times> call list" where
  "daemon_loop M 0 instances x = daemon_tick M 0 instances x"
| "daemon_loop M (Suc n) instances x =
     (case daemon_tick M 0 instances x of
        (is, x1, cs) \<Rightarrow>
          (case daemon_loop M n is x1 of (is', x2, cs') \<Rightarrow> (is', x2, cs @ cs')))"

definition RunDaemon ::
  "env \<Rightarrow> 'x session \<Rightarrow> path \<Rightarrow> nat \<Rightarrow> world \<Rightarrow> 'x \<Rightarrow> error option \<times> world \<times> 'x \<times> call list" where
  "RunDaemon E M rp n w x =
     (case daemon_launch E M rp w x of
        (Inl err, w1, x1) \<Rightarrow> (Some err, w1, x1, [])
      | (Inr (state, instances), w1, x1) \<Rightarrow>
          (case daemon_loop M n instances x1 of
             (is, x2, cs) \<Rightarrow>
               (case StoreInstances M state is w1 x2 of
                  (_, w2, x3) \<Rightarrow> (None, w2, x3, cs))))"




section \<open>Worlds for the examples\<close>

definition world0 :: world where
  "world0 = \<lparr>files = Map.empty, dirs = {}, handles = Map.empty, next_handle = 3,
             flocks = Map.empty, clock = 1700000000, faults = (\<lambda>n. 0), trace = []\<rparr>"

text \<open>A corrupt primary (the bytes of scenario 3) beside a good backup.\<close>

definition world_corrupt :: world where
  "world_corrupt =
     world0\<lparr>files := [''/repo/.claude-squad/state.json'' \<mapsto> ''{'',
                       ''/repo/.claude-squad/state.json.bak'' \<mapsto> doc_seen3]\<rparr>"

text \<open>The same repository after \<open>GetStateDir\<close> has run in it.\<close>

definition stateDir0 :: path where
  "stateDir0 = ''/repo/.claude-squad''"

definition gitignore0 :: path where
  "gitignore0 = ''/repo/.claude-squad/.gitignore''"

definition trace_dir0 :: "syscall list" where
  "trace_dir0 = [SysMkdirAll stateDir0 493, SysStat gitignore0,
                 SysWriteFile gitignore0 [CHR ''*'', CHR 0x0A] 420]"

definition world_corrupt1 :: world where
  "world_corrupt1 =
     world_corrupt\<lparr>dirs := {stateDir0},
       files := (files world_corrupt)(gitignore0 \<mapsto> [CHR ''*'', CHR 0x0A]),
       trace := trace_dir0\<rparr>"

text \<open>
  A repository with a state file of three seen help screens and one instance; and the
  same repository on a disk that refuses the fifth system call made in it.
\<close>

definition world_good :: world where
  "world_good =
     world0\<lparr>files := [''/repo/.claude-squad/.gitignore'' \<mapsto> [CHR ''*'', CHR 0x0A],
                       ''/repo/.claude-squad/state.json'' \<mapsto> doc_seen3]\<rparr>"

definition world_full :: world where
  "world_full = world_good\<lparr>faults := (\<lambda>n. if n = 4 then 1 else 0)\<rparr>"

text \<open>A repository whose primary is corrupt and has no backup.\<close>

definition world_lost :: world where
  "world_lost = world0\<lparr>files := [''/repo/.claude-squad/state.json'' \<mapsto> ''{'']\<rparr>"

text \<open>
  Lock contention in the example repository: process 100 acquires the lock in an empty
  world, process 200 tries while it is held, process 100 releases.
\<close>

definition lock0 :: path where
  "lock0 = ''/repo/.claude-squad/cs.lock''"

definition worldA :: world where
  "worldA = snd (AcquireLock demo_env 100 ''/repo'' world0)"

definition worldB :: world where
  "worldB = snd (AcquireLock demo_env 200 ''/repo'' worldA)"

definition worldC :: world where
  "worldC = snd (snd (Release \<lparr>lockFile = Some 3, filePath = lock0\<rparr> worldB))"

section \<open>Properties of the repository hash\<close>

lemma hexdigit_lower: "n < 16 \<Longrightarrow> hexdigit n \<in> set ''0123456789abcdef''"
  unfolding hexdigit_def by (rule nth_mem) simp

lemma hex_byte_length: "length (hex_byte b) = 2"
  by (simp add: hex_byte_def)

lemma hex_byte_lower: "set (hex_byte b) \<subseteq> set ''0123456789abcdef''"
proof -
  have "unat b < 2 ^ 8" using unsigned_less [of b] by simp
  then have hi: "unat b div 16 < 16" by simp
  have lo: "unat b mod 16 < 16" by simp
  show ?thesis
    unfolding hex_byte_def using hexdigit_lower [OF hi] hexdigit_lower [OF lo] by simp
qed

lemma sprintf_x_length: "length (sprintf_x bs) = 2 * length bs"
  by (induction bs) (simp_all add: sprintf_x_def hex_byte_length)

lemma sprintf_x_lower: "set (sprintf_x bs) \<subseteq> set ''0123456789abcdef''"
  unfolding sprintf_x_def using hex_byte_lower by (induction bs) auto

text \<open>
  C4. Whenever the path can be canonicalised (and the digest has its 32 bytes),
  \<open>GetRepoHash\<close> returns eight characters, each a lowercase hexadecimal digit; the
  result is computed from the canonical path alone, so every path with the same
  canonical path receives the same hash.
\<close>

theorem GetRepoHash_canonical:
  assumes "GetCanonicalRepoPath E p = Inr c" and "length (Sum256 E c) = 32"
  shows "\<exists>h. GetRepoHash E p = Inr h \<and> length h = 8
            \<and> set h \<subseteq> set ''0123456789abcdef''
            \<and> (\<forall>q. GetCanonicalRepoPath E q = Inr c \<longrightarrow> GetRepoHash E q = Inr h)"
proof -
  let ?h = "sprintf_x (take 4 (Sum256 E c))"
  have "GetRepoHash E p = Inr ?h"
    using assms(1) by (simp add: GetRepoHash_def)
  moreover have "length ?h = 8"
    using assms(2) by (simp add: sprintf_x_length)
  moreover have "set ?h \<subseteq> set ''0123456789abcdef''"
    by (rule sprintf_x_lower)
  moreover have "\<forall>q. GetCanonicalRepoPath E q = Inr c \<longrightarrow> GetRepoHash E q = Inr ?h"
    by (simp add: GetRepoHash_def)
  ultimately show ?thesis by blast
qed

theorem GetRepoHash_canonical_witness:
  "GetCanonicalRepoPath demo_env ''/tmp/link'' = Inr ''/tmp/real-repo''
   \<and> length (Sum256 demo_env ''/tmp/real-repo'') = 32
   \<and> GetRepoHash demo_env ''/tmp/link'' = Inr ''60fa3147''
   \<and> GetRepoHash demo_env ''/tmp/real-repo'' = GetRepoHash demo_env ''/tmp/link''"
proof -
  have c: "GetCanonicalRepoPath demo_env ''/tmp/link'' = Inr ''/tmp/real-repo''"
    by (simp add: GetCanonicalRepoPath_def demo_env_def demo_EvalSymlinks_def demo_Abs_def)
  have c': "GetCanonicalRepoPath demo_env ''/tmp/real-repo'' = Inr ''/tmp/real-repo''"
    by (simp add: GetCanonicalRepoPath_def demo_env_def demo_EvalSymlinks_def demo_Abs_def)
  have l: "length (Sum256 demo_env ''/tmp/real-repo'') = 32"
    by (simp add: demo_env_def demo_Sum256_def)
  from GetRepoHash_canonical [OF c l] obtain h where
    h: "GetRepoHash demo_env ''/tmp/link'' = Inr h"
       "\<forall>q. GetCanonicalRepoPath demo_env q = Inr ''/tmp/real-repo'' \<longrightarrow> GetRepoHash demo_env q = Inr h"
    by blast
  have v: "GetRepoHash demo_env ''/tmp/link'' = Inr ''60fa3147''"
    unfolding GetRepoHash_def c
    by (simp add: demo_env_def demo_Sum256_def sprintf_x_def hex_byte_def hexdigit_def)
  from h c' have "GetRepoHash demo_env ''/tmp/real-repo'' = GetRepoHash demo_env ''/tmp/link''"
    by simp
  with c l v show ?thesis by simp
qed

section \<open>Evaluation rules\<close>

lemmas os_defs = os_MkdirAll_def os_Stat_def os_ReadFile_def os_WriteFile_def os_Rename_def
  os_Remove_def os_OpenFile_def sys_Flock_def file_Close_def file_Truncate_def file_Seek_def
  file_Write_def file_Sync_def step_def fault_at_def

lemmas path_defs = statePath_def backupPath_def corruptedPath_def Join_def sep_def
  StateFileName_def StateDirName_def

lemmas demo_defs = demo_env_def demo_EvalSymlinks_def demo_Abs_def demo_Unmarshal_def
  demo_MarshalIndent_def doc_seen3_def doc_reset3_def doc_default_def raw_one_def nl_def

lemmas ex_defs = stateDir0_def gitignore0_def trace_dir0_def

lemmas save_defs = os_Stat_def os_Rename_def os_ReadFile_def os_WriteFile_def step_def
  fault_at_def

lemma itoa_clock: "itoa 1700000000 = ''1700000000''"
  by (simp add: itoa_def itoa_nat.simps)

lemma itoa_100: "itoa 100 = ''100''" "itoa 200 = ''200''"
  by (simp_all add: itoa_def itoa_nat.simps)

lemma paths0:
  "statePath stateDir0 = ''/repo/.claude-squad/state.json''"
  "backupPath stateDir0 = ''/repo/.claude-squad/state.json.bak''"
  "corruptedPath stateDir0 1700000000 = ''/repo/.claude-squad/state.json.corrupted.1700000000''"
  by (simp_all add: path_defs itoa_clock stateDir0_def)

lemma dir0: "Join ''/repo'' StateDirName = stateDir0" "Join stateDir0 ''.gitignore'' = gitignore0"
  by (simp_all add: path_defs ex_defs)

lemma lock0_eq: "Join stateDir0 ''cs.lock'' = lock0"
  by (simp add: lock0_def stateDir0_def Join_def sep_def)

lemma canon_repo: "GetCanonicalRepoPath demo_env ''/repo'' = Inr ''/repo''"
  by (simp add: GetCanonicalRepoPath_def demo_env_def demo_EvalSymlinks_def demo_Abs_def)

lemma canon_missing: "\<exists>e. GetStateDir demo_env ''/missing'' world0 = (Inl e, world0)"
  by (simp add: GetStateDir_def GetCanonicalRepoPath_def demo_env_def demo_EvalSymlinks_def)

lemma canon_empty: "GetCanonicalRepoPath demo_env [] = Inr ''/home/user''"
  by (simp add: GetCanonicalRepoPath_def demo_env_def demo_EvalSymlinks_def demo_Abs_def)

lemma demo_Unmarshal_facts:
  "Unmarshal demo_env ''{'' = None"
  "Unmarshal demo_env doc_seen3
     = Some \<lparr>HelpScreensSeen = 3, InstancesData = raw_one, repoPath = []\<rparr>"
  by (simp_all add: demo_defs)

lemma demo_Marshal_reset3:
  "MarshalIndent demo_env \<lparr>HelpScreensSeen = 3, InstancesData = ''[]'', repoPath = p\<rparr>
     = Inr doc_reset3"
  by (simp add: demo_env_def demo_MarshalIndent_def raw_one_def nl_def)

lemma demo_Marshal_default: "MarshalIndent demo_env DefaultState = Inr doc_default"
  by (simp add: demo_env_def demo_MarshalIndent_def DefaultState_def raw_one_def nl_def)

lemma demo_Marshal_seen:
  "MarshalIndent demo_env (DefaultState\<lparr>HelpScreensSeen := 3\<rparr>) = Inr doc_reset3"
  by (simp add: demo_env_def demo_MarshalIndent_def DefaultState_def raw_one_def nl_def)

lemma Atoi_empty: "Atoi [] = None"
  by (simp add: Atoi_def)

lemma TrimSpace_100:
  "TrimSpace [CHR ''1'', CHR ''0'', CHR ''0'', CHR 0x0A] = ''100''" "Atoi ''100'' = Some 100"
  by (simp_all add: TrimSpace_def is_space1_def is_space2_def is_space3_def Atoi_def
      is_digit_def digits_val_def)

lemma fault_at_nums:
  "fault_at 0 w = faults w (length (trace w))"
  "fault_at 1 w = faults w (Suc (length (trace w)))"
  "fault_at 2 w = faults w (Suc (Suc (length (trace w))))"
  "fault_at 3 w = faults w (Suc (Suc (Suc (length (trace w)))))"
  "fault_at 4 w = faults w (Suc (Suc (Suc (Suc (length (trace w))))))"
  by (simp_all add: fault_at_def eval_nat_numeral)

lemma fault_at_shift:
  "faults w' = faults w \<Longrightarrow> trace w' = trace w @ cs \<Longrightarrow> fault_at k w' = fault_at (length cs + k) w"
  by (simp add: fault_at_def add.assoc)

lemma no_faults_shift:
  "no_faults w \<Longrightarrow> faults w' = faults w \<Longrightarrow> trace w' = trace w @ cs \<Longrightarrow> no_faults w'"
  unfolding no_faults_def using fault_at_shift [of w' w cs] by simp

lemma no_faults_const: "faults w = (\<lambda>n. 0) \<Longrightarrow> no_faults w"
  by (simp add: no_faults_def fault_at_def)

lemma no_faults_at: "faults w = (\<lambda>n. 0) \<Longrightarrow> fault_at k w = 0"
  by (simp add: fault_at_def)

section \<open>What the system calls leave unchanged\<close>

lemma os_Stat_frame:
  assumes "os_Stat p w = (r, w')"
  shows "files w' = files w" and "faults w' = faults w" and "trace w' = trace w @ [SysStat p]"
    and "r = None \<Longrightarrow> files w p \<noteq> None"
    and "fault_at 0 w = 0 \<Longrightarrow> r = (if files w p = None then Some ErrNotExist else None)"
  using assms by (auto simp: os_Stat_def step_def split: if_splits)

lemma os_ReadFile_frame:
  assumes "os_ReadFile p w = (r, w')"
  shows "files w' = files w" and "faults w' = faults w" and "trace w' = trace w @ [SysReadFile p]"
    and "r = Inr d \<Longrightarrow> files w p = Some d"
  using assms by (auto simp: os_ReadFile_def step_def split: if_splits option.splits)

lemma os_Rename_frame:
  assumes "os_Rename a b w = (r, w')"
  shows "faults w' = faults w" and "trace w' = trace w @ [SysRename a b]"
    and "r \<noteq> None \<Longrightarrow> files w' = files w"
    and "r = None \<Longrightarrow> \<exists>c. files w a = Some c \<and> files w' = ((files w)(a := None))(b \<mapsto> c)"
  using assms by (auto simp: os_Rename_def step_def split: if_splits option.splits)

lemma os_WriteFile_frame:
  assumes "os_WriteFile p d m w = (r, w')"
  shows "faults w' = faults w" and "trace w' = trace w @ [SysWriteFile p d m]"
    and "q \<noteq> p \<Longrightarrow> files w' q = files w q"
    and "files w p \<noteq> None \<Longrightarrow> files w' p \<noteq> None"
    and "r = None \<Longrightarrow> files w' p = Some d"
    and "r = None \<longleftrightarrow> fault_at 0 w = 0"
    and "r \<noteq> None \<Longrightarrow> r = Some ErrOther"
  using assms by (auto simp: os_WriteFile_def step_def split: if_splits nat.splits)

lemma os_MkdirAll_frame:
  assumes "os_MkdirAll p m w = (r, w')"
  shows "files w' = files w" and "faults w' = faults w" and "trace w' = trace w @ [SysMkdirAll p m]"
  using assms by (auto simp: os_MkdirAll_def step_def split: if_splits)

lemma os_OpenFile_frame:
  assumes "os_OpenFile p m w = (r, w')"
  shows "flocks w' = flocks w" and "faults w' = faults w"
    and "trace w' = trace w @ [SysOpenFile p m]"
    and "files w q \<noteq> None \<Longrightarrow> files w' q = files w q"
    and "r = Inr f \<Longrightarrow> f = next_handle w \<and> handles w' f = Some (p, 0) \<and> fault_at 0 w = 0
           \<and> files w' p \<noteq> None \<and> (files w p = None \<longrightarrow> files w' p = Some [])"
    and "fault_at 0 w = 0 \<Longrightarrow> r = Inr (next_handle w)"
  using assms by (auto simp: os_OpenFile_def step_def split: if_splits option.splits)

lemma file_Close_frame:
  assumes "file_Close f w = (r, w')"
  shows "files w' = files w" and "faults w' = faults w" and "trace w' = trace w @ [SysClose f]"
    and "flocks w p = Some h \<Longrightarrow> h \<noteq> f \<Longrightarrow> flocks w' p = Some h"
    and "handles w' f = None"
    and "r = None \<Longrightarrow> handles w f = Some (p, off) \<Longrightarrow> flocks w p = Some f
           \<Longrightarrow> flocks w' p = None"
  using assms
  by (auto simp: file_Close_def release_handle_def step_def split: if_splits option.splits)

lemma file_Truncate_frame:
  assumes "file_Truncate f 0 w = (r, w')"
  shows "flocks w' = flocks w" and "next_handle w' = next_handle w" and "faults w' = faults w"
    and "trace w' = trace w @ [SysTruncate f 0]" and "handles w' = handles w"
    and "files w p \<noteq> None \<Longrightarrow> files w' p \<noteq> None"
    and "handles w f = Some (p, off) \<Longrightarrow> fault_at 0 w = 0 \<Longrightarrow> files w p \<noteq> None
           \<Longrightarrow> r = None \<and> files w' p = Some []"
  using assms
  by (auto simp: file_Truncate_def step_def split: if_splits option.splits)

lemma file_Seek_frame:
  assumes "file_Seek f 0 w = (r, w')"
  shows "flocks w' = flocks w" and "next_handle w' = next_handle w" and "faults w' = faults w"
    and "trace w' = trace w @ [SysSeek f 0]" and "files w' = files w"
    and "handles w f = Some (p, off) \<Longrightarrow> \<exists>off'. handles w' f = Some (p, off')"
    and "handles w f = Some (p, off) \<Longrightarrow> fault_at 0 w = 0
           \<Longrightarrow> r = None \<and> handles w' f = Some (p, 0)"
  using assms
  by (auto simp: file_Seek_def step_def split: if_splits option.splits)

lemma file_Write_frame:
  assumes "file_Write f d w = (r, w')"
  shows "flocks w' = flocks w" and "next_handle w' = next_handle w" and "faults w' = faults w"
    and "trace w' = trace w @ [SysWrite f d]"
    and "handles w f = Some (p, off) \<Longrightarrow> \<exists>off'. handles w' f = Some (p, off')"
    and "handles w f = Some (p, 0) \<Longrightarrow> fault_at 0 w = 0 \<Longrightarrow> files w p = Some []
           \<Longrightarrow> files w' p = Some d"
  using assms
  by (auto simp: file_Write_def step_def write_at_def split: if_splits option.splits)

lemma file_Sync_frame:
  assumes "file_Sync f w = (r, w')"
  shows "flocks w' = flocks w" and "next_handle w' = next_handle w" and "faults w' = faults w"
    and "trace w' = trace w @ [SysSync f]" and "files w' = files w" and "handles w' = handles w"
  using assms
  by (auto simp: file_Sync_def step_def split: if_splits option.splits)

lemma Rename_keeps:
  assumes "os_Rename a b w = (r, w')"
    and "files w a \<noteq> None \<or> files w b \<noteq> None"
  shows "files w' a \<noteq> None \<or> files w' b \<noteq> None"
  using assms by (auto simp: os_Rename_def step_def split: if_splits option.splits)

lemma WriteFile_keeps:
  assumes "os_WriteFile p d m w = (r, w')" and "files w q \<noteq> None"
  shows "files w' q \<noteq> None"
  using assms by (auto simp: os_WriteFile_def step_def split: if_splits nat.splits)

section \<open>The state directory\<close>

lemma gitignore_distinct:
  "Join d ''.gitignore'' \<noteq> statePath d" "Join d ''.gitignore'' \<noteq> backupPath d"
  "statePath d \<noteq> backupPath d" "backupPath d \<noteq> statePath d"
  "corruptedPath d t \<noteq> statePath d" "corruptedPath d t \<noteq> backupPath d"
  by (simp_all add: path_defs)

lemma GetStateDir_frame:
  assumes "GetStateDir E rp w = (r, w')"
  shows "faults w' = faults w"
    and "\<exists>cs. trace w' = trace w @ cs"
    and "r = Inr d \<Longrightarrow> \<exists>c. GetCanonicalRepoPath E rp = Inr c \<and> d = Join c StateDirName"
    and "r = Inr d \<Longrightarrow> q \<noteq> Join d ''.gitignore'' \<Longrightarrow> files w' q = files w q"
    and "r = Inl e \<Longrightarrow> files w' = files w"
  using assms
  by (auto simp: GetStateDir_def Let_def os_MkdirAll_def os_Stat_def os_WriteFile_def step_def
      IsNotExist_def split: sum.splits prod.splits option.splits if_splits nat.splits)

lemma GetStateDir_locks:
  assumes "GetStateDir E rp w = (r, w')"
  shows "flocks w' = flocks w" and "handles w' = handles w" and "next_handle w' = next_handle w"
  using assms
  by (auto simp: GetStateDir_def Let_def os_MkdirAll_def os_Stat_def os_WriteFile_def step_def
      IsNotExist_def split: sum.splits prod.splits option.splits if_splits nat.splits)

lemma GetStateDir_no_faults:
  assumes "GetCanonicalRepoPath E rp = Inr c" and "no_faults w"
  shows "\<exists>w'. GetStateDir E rp w = (Inr (Join c StateDirName), w') \<and> no_faults w'
            \<and> (\<forall>q. q \<noteq> Join (Join c StateDirName) ''.gitignore'' \<longrightarrow> files w' q = files w q)"
proof -
  obtain r w' where g: "GetStateDir E rp w = (r, w')" by (cases "GetStateDir E rp w")
  have f: "fault_at 0 w = 0" using assms(2) by (simp add: no_faults_def)
  have r: "r = Inr (Join c StateDirName)"
    using g assms(1) f
    by (auto simp: GetStateDir_def Let_def os_MkdirAll_def os_Stat_def os_WriteFile_def step_def
      IsNotExist_def split: sum.splits prod.splits option.splits if_splits nat.splits)
  from GetStateDir_frame(2) [OF g] obtain cs where "trace w' = trace w @ cs" by blast
  with GetStateDir_frame(1) [OF g] assms(2) have "no_faults w'"
    using no_faults_shift by blast
  with g r GetStateDir_frame(4) [OF g r] show ?thesis by blast
qed

lemma GetStateDir_run_present:
  assumes "GetCanonicalRepoPath E rp = Inr c"
    and "fault_at 0 w = 0" and "fault_at 1 w = 0"
    and "files w (Join (Join c StateDirName) ''.gitignore'') \<noteq> None"
  shows "GetStateDir E rp w =
           (Inr (Join c StateDirName),
            w\<lparr>dirs := insert (Join c StateDirName) (dirs w),
              trace := trace w @ [SysMkdirAll (Join c StateDirName) 493,
                                  SysStat (Join (Join c StateDirName) ''.gitignore'')]\<rparr>)"
  using assms unfolding fault_at_nums
  by (auto simp: GetStateDir_def Let_def os_MkdirAll_def os_Stat_def step_def fault_at_def
      IsNotExist_def)

lemma GetStateDir_run_absent:
  assumes "GetCanonicalRepoPath E rp = Inr c"
    and "fault_at 0 w = 0" and "fault_at 1 w = 0" and "fault_at 2 w = 0"
    and "files w (Join (Join c StateDirName) ''.gitignore'') = None"
  shows "GetStateDir E rp w =
           (Inr (Join c StateDirName),
            w\<lparr>dirs := insert (Join c StateDirName) (dirs w),
              files := (files w)(Join (Join c StateDirName) ''.gitignore'' \<mapsto> [CHR ''*'', CHR 0x0A]),
              trace := trace w @ [SysMkdirAll (Join c StateDirName) 493,
                                  SysStat (Join (Join c StateDirName) ''.gitignore''),
                                  SysWriteFile (Join (Join c StateDirName) ''.gitignore'')
                                     [CHR ''*'', CHR 0x0A] 420]\<rparr>)"
  using assms unfolding fault_at_nums
  by (auto simp: GetStateDir_def Let_def os_MkdirAll_def os_Stat_def os_WriteFile_def step_def
      fault_at_def IsNotExist_def)

text \<open>The state directory of the example, once \<open>GetStateDir\<close> has run.\<close>

lemma gs_corrupt:
  "GetStateDir demo_env ''/repo'' world_corrupt = (Inr stateDir0, world_corrupt1)"
  by (simp add: GetStateDir_def GetCanonicalRepoPath_def demo_env_def demo_EvalSymlinks_def
      demo_Abs_def path_defs os_defs world_corrupt_def world_corrupt1_def world0_def
      IsNotExist_def Let_def ex_defs)

lemma corrupt1_facts:
  "fault_at k world_corrupt1 = 0"
  "files world_corrupt1 (statePath stateDir0) = Some ''{''"
  "files world_corrupt1 (backupPath stateDir0) = Some doc_seen3"
  "clock world_corrupt1 = 1700000000"
  "trace world_corrupt1 = trace_dir0"
  by (simp_all add: world_corrupt1_def world_corrupt_def world0_def fault_at_def paths0
      gitignore0_def)

lemma gs_good:
  "GetStateDir demo_env ''/repo'' world_good =
     (Inr stateDir0,
      world_good\<lparr>dirs := insert stateDir0 (dirs world_good),
        trace := trace world_good @ [SysMkdirAll stateDir0 493, SysStat gitignore0]\<rparr>)"
  using GetStateDir_run_present [OF canon_repo, of world_good]
  by (simp add: dir0) (simp add: world_good_def world0_def fault_at_def gitignore0_def)

lemma gs_full:
  "GetStateDir demo_env ''/repo'' world_full =
     (Inr stateDir0,
      world_full\<lparr>dirs := insert stateDir0 (dirs world_full),
        trace := trace world_full @ [SysMkdirAll stateDir0 493, SysStat gitignore0]\<rparr>)"
  using GetStateDir_run_present [OF canon_repo, of world_full]
  by (simp add: dir0)
     (simp add: world_full_def world_good_def world0_def fault_at_def gitignore0_def)

lemma gs_lost:
  "GetStateDir demo_env ''/repo'' world_lost =
     (Inr stateDir0,
      world_lost\<lparr>dirs := insert stateDir0 (dirs world_lost),
        files := (files world_lost)(gitignore0 \<mapsto> [CHR ''*'', CHR 0x0A]),
        trace := trace world_lost @ [SysMkdirAll stateDir0 493, SysStat gitignore0,
                                     SysWriteFile gitignore0 [CHR ''*'', CHR 0x0A] 420]\<rparr>)"
  using GetStateDir_run_absent [OF canon_repo, of world_lost]
  by (simp add: dir0) (simp add: world_lost_def world0_def fault_at_def gitignore0_def)

section \<open>The branches of loading\<close>

lemma LoadState_no_dir:
  "GetStateDir E rp w = (Inl e, w1) \<Longrightarrow> LoadState E rp w = (DefaultState, w1)"
  by (simp add: LoadState_def)

lemma LoadState_unreadable:
  assumes "GetStateDir E rp w = (Inr stateDir, w1)" and "fault_at 0 w1 \<noteq> 0"
  shows "LoadState E rp w
           = (DefaultState\<lparr>repoPath := rp\<rparr>,
              w1\<lparr>trace := trace w1 @ [SysReadFile (statePath stateDir)]\<rparr>)"
  using assms by (simp add: LoadState_def os_ReadFile_def step_def IsNotExist_def)

lemma LoadState_absent:
  assumes "GetStateDir E rp w = (Inr stateDir, w1)" and "fault_at 0 w1 = 0"
    and "files w1 (statePath stateDir) = None"
  shows "LoadState E rp w
           = (DefaultState,
              snd (SaveState E DefaultState rp
                     (w1\<lparr>trace := trace w1 @ [SysReadFile (statePath stateDir)]\<rparr>)))"
  using assms
  by (simp add: LoadState_def os_ReadFile_def step_def IsNotExist_def split: prod.splits)

lemma LoadState_decoded:
  assumes "GetStateDir E rp w = (Inr stateDir, w1)" and "fault_at 0 w1 = 0"
    and "files w1 (statePath stateDir) = Some data" and "Unmarshal E data = Some state"
  shows "LoadState E rp w
           = (state\<lparr>repoPath := rp\<rparr>,
              w1\<lparr>trace := trace w1 @ [SysReadFile (statePath stateDir)]\<rparr>)"
  using assms by (simp add: LoadState_def os_ReadFile_def step_def)

lemma LoadState_corrupt_run:
  assumes gs: "GetStateDir E rp w = (Inr stateDir, w1)"
    and f0: "fault_at 0 w1 = 0"
    and pr: "files w1 (statePath stateDir) = Some data"
    and un: "Unmarshal E data = None"
    and ls: "LoadState E rp w = (s, w')"
  shows "trace w' = trace w1 @ [SysReadFile (statePath stateDir),
                               SysRename (statePath stateDir) (corruptedPath stateDir (clock w1)),
                               SysReadFile (backupPath stateDir)]"
    and "fault_at 1 w1 = 0 \<Longrightarrow> files w' (corruptedPath stateDir (clock w1)) = Some data"
    and "files w' (statePath stateDir) = (if fault_at 1 w1 = 0 then None else Some data)"
    and "files w' (backupPath stateDir) = files w1 (backupPath stateDir)"
    and "fault_at 2 w1 = 0 \<Longrightarrow> files w1 (backupPath stateDir) = Some b
           \<Longrightarrow> Unmarshal E b = Some bs \<Longrightarrow> s = bs\<lparr>repoPath := rp\<rparr>"
    and "fault_at 2 w1 \<noteq> 0 \<or> files w1 (backupPath stateDir) = None
           \<or> (\<exists>b. files w1 (backupPath stateDir) = Some b \<and> Unmarshal E b = None)
           \<Longrightarrow> s = DefaultState\<lparr>repoPath := rp\<rparr>"
  using ls pr f0 unfolding LoadState_def gs
  by (auto simp: un backupPath_def corruptedPath_def os_Rename_def os_ReadFile_def step_def
      fault_at_def IsNotExist_def split: prod.splits sum.splits option.splits if_splits)

section \<open>The phases of saving\<close>

text \<open>The two phases of \<open>SaveState\<close> around the write of the primary.\<close>

lemma SaveState_phases:
  assumes gs: "GetStateDir E rp w = (Inr d, w1)" and ma: "MarshalIndent E st = Inr data"
  shows "SaveState E st rp w =
     (case os_WriteFile (statePath d) data 420
             (case os_Stat (statePath d) w1 of
                (Some _, w2) \<Rightarrow> w2
              | (None, w2) \<Rightarrow>
                  (case os_Rename (statePath d) (backupPath d) w2 of
                     (None, w3) \<Rightarrow> w3
                   | (Some _, w3) \<Rightarrow>
                       (case os_ReadFile (statePath d) w3 of
                          (Inr existing, w3') \<Rightarrow>
                            snd (os_WriteFile (backupPath d) existing 420 w3')
                        | (Inl _, w3') \<Rightarrow> w3'))) of
        (Some err, w5) \<Rightarrow>
          (Some (Errorf ''failed to write state file: %w'' (Some err)),
           case os_Stat (backupPath d) w5 of
             (None, w6) \<Rightarrow> snd (os_Rename (backupPath d) (statePath d) w6)
           | (Some _, w6) \<Rightarrow> w6)
      | (None, w5) \<Rightarrow> (None, w5))"
  by (simp add: SaveState_def gs ma Let_def)

lemma backup_phase_keeps:
  assumes "w4 = (case os_Stat sp w1 of
                (Some _, w2) \<Rightarrow> w2
              | (None, w2) \<Rightarrow>
                  (case os_Rename sp bp w2 of
                     (None, w3) \<Rightarrow> w3
                   | (Some _, w3) \<Rightarrow>
                       (case os_ReadFile sp w3 of
                          (Inr existing, w3') \<Rightarrow> snd (os_WriteFile bp existing 420 w3')
                        | (Inl _, w3') \<Rightarrow> w3')))"
    and h: "files w1 sp \<noteq> None \<or> files w1 bp \<noteq> None"
  shows "files w4 sp \<noteq> None \<or> files w4 bp \<noteq> None"
proof -
  obtain r2 w2 where st: "os_Stat sp w1 = (r2, w2)" by (cases "os_Stat sp w1")
  have h2: "files w2 sp \<noteq> None \<or> files w2 bp \<noteq> None"
    using h os_Stat_frame(1) [OF st] by simp
  show ?thesis
  proof (cases r2)
    case (Some e)
    then show ?thesis using assms(1) st h2 by simp
  next
    case None
    obtain r3 w3 where rn: "os_Rename sp bp w2 = (r3, w3)" by (cases "os_Rename sp bp w2")
    have h3: "files w3 sp \<noteq> None \<or> files w3 bp \<noteq> None"
      using Rename_keeps [OF rn h2] .
    show ?thesis
    proof (cases r3)
      case None
      then show ?thesis using assms(1) st \<open>r2 = None\<close> rn h3 by simp
    next
      case (Some e)
      obtain r3' w3' where rd: "os_ReadFile sp w3 = (r3', w3')" by (cases "os_ReadFile sp w3")
      have h3': "files w3' sp \<noteq> None \<or> files w3' bp \<noteq> None"
        using h3 os_ReadFile_frame(1) [OF rd] by simp
      show ?thesis
      proof (cases r3')
        case (Inl e')
        then show ?thesis using assms(1) st \<open>r2 = None\<close> rn Some rd h3' by simp
      next
        case (Inr existing)
        obtain r4 w4' where wr: "os_WriteFile bp existing 420 w3' = (r4, w4')"
          by (cases "os_WriteFile bp existing 420 w3'")
        have "w4 = w4'" using assms(1) st \<open>r2 = None\<close> rn Some rd Inr wr by simp
        then show ?thesis using h3' WriteFile_keeps [OF wr] by blast
      qed
    qed
  qed
qed

lemma SaveState_keeps_a_copy:
  assumes sv: "SaveState E st rp w = (r, w')" and gs: "GetStateDir E rp w = (Inr d, w1)"
    and h: "files w (statePath d) \<noteq> None \<or> files w (backupPath d) \<noteq> None"
  shows "files w' (statePath d) \<noteq> None \<or> files w' (backupPath d) \<noteq> None"
proof -
  let ?sp = "statePath d" and ?bp = "backupPath d"
  have h1: "files w1 ?sp \<noteq> None \<or> files w1 ?bp \<noteq> None"
    using h GetStateDir_frame(4) [OF gs refl] gitignore_distinct by metis
  show ?thesis
  proof (cases "MarshalIndent E st")
    case (Inl e)
    then have "w' = w1" using sv by (simp add: SaveState_def gs)
    then show ?thesis using h1 by simp
  next
    case (Inr data)
    define w4 where "w4 = (case os_Stat ?sp w1 of
                (Some _, w2) \<Rightarrow> w2
              | (None, w2) \<Rightarrow>
                  (case os_Rename ?sp ?bp w2 of
                     (None, w3) \<Rightarrow> w3
                   | (Some _, w3) \<Rightarrow>
                       (case os_ReadFile ?sp w3 of
                          (Inr existing, w3') \<Rightarrow> snd (os_WriteFile ?bp existing 420 w3')
                        | (Inl _, w3') \<Rightarrow> w3')))"
    have h4: "files w4 ?sp \<noteq> None \<or> files w4 ?bp \<noteq> None"
      using backup_phase_keeps [OF w4_def h1] .
    obtain r5 w5 where wr: "os_WriteFile ?sp data 420 w4 = (r5, w5)"
      by (cases "os_WriteFile ?sp data 420 w4")
    have h5: "files w5 ?sp \<noteq> None \<or> files w5 ?bp \<noteq> None"
      using h4 WriteFile_keeps [OF wr] by blast
    have eq: "(r, w') = (case (r5, w5) of
        (Some err, w5) \<Rightarrow>
          (Some (Errorf ''failed to write state file: %w'' (Some err)),
           case os_Stat ?bp w5 of
             (None, w6) \<Rightarrow> snd (os_Rename ?bp ?sp w6)
           | (Some _, w6) \<Rightarrow> w6)
      | (None, w5) \<Rightarrow> (None, w5))"
      using sv unfolding SaveState_phases [OF gs Inr] w4_def [symmetric] wr by simp
    show ?thesis
    proof (cases r5)
      case None
      then show ?thesis using eq h5 by simp
    next
      case (Some e)
      obtain r6 w6 where st: "os_Stat ?bp w5 = (r6, w6)" by (cases "os_Stat ?bp w5")
      have h6: "files w6 ?sp \<noteq> None \<or> files w6 ?bp \<noteq> None"
        using h5 os_Stat_frame(1) [OF st] by simp
      show ?thesis
      proof (cases r6)
        case (Some e')
        then show ?thesis using eq \<open>r5 = Some e\<close> st h6 by simp
      next
        case None
        obtain r7 w7 where rn: "os_Rename ?bp ?sp w6 = (r7, w7)"
          by (cases "os_Rename ?bp ?sp w6")
        have "w' = w7" using eq \<open>r5 = Some e\<close> st None rn by simp
        then show ?thesis using Rename_keeps [OF rn] h6 by blast
      qed
    qed
  qed
qed

lemma SaveState_rotates:
  assumes gs: "GetStateDir E rp w = (Inr d, w1)" and ma: "MarshalIndent E st = Inr data"
    and old: "files w1 (statePath d) = Some old"
    and f: "fault_at 0 w1 = 0" "fault_at 1 w1 = 0" "fault_at 2 w1 = 0"
    and sv: "SaveState E st rp w = (r, w')"
  shows "r = None" and "files w' (statePath d) = Some data"
    and "files w' (backupPath d) = Some old"
    and "trace w' = trace w1 @ [SysStat (statePath d),
                               SysRename (statePath d) (backupPath d),
                               SysWriteFile (statePath d) data 420]"
    and "w' = w1\<lparr>files := (files w1)(backupPath d \<mapsto> old, statePath d \<mapsto> data),
                 trace := trace w1 @ [SysStat (statePath d),
                                      SysRename (statePath d) (backupPath d),
                                      SysWriteFile (statePath d) data 420]\<rparr>"
  using sv old f gitignore_distinct(3) [of d]
  unfolding SaveState_phases [OF gs ma] fault_at_nums
  by (auto simp: save_defs)

lemma SaveState_copies:
  assumes gs: "GetStateDir E rp w = (Inr d, w1)" and ma: "MarshalIndent E st = Inr data"
    and old: "files w1 (statePath d) = Some old"
    and f: "fault_at 0 w1 = 0" "fault_at 1 w1 \<noteq> 0" "fault_at 2 w1 = 0" "fault_at 3 w1 = 0"
           "fault_at 4 w1 = 0"
    and sv: "SaveState E st rp w = (r, w')"
  shows "r = None" and "files w' (statePath d) = Some data"
    and "files w' (backupPath d) = Some old"
    and "trace w' = trace w1 @ [SysStat (statePath d),
                               SysRename (statePath d) (backupPath d),
                               SysReadFile (statePath d),
                               SysWriteFile (backupPath d) old 420,
                               SysWriteFile (statePath d) data 420]"
  using sv old f gitignore_distinct(3) [of d]
  unfolding SaveState_phases [OF gs ma] fault_at_nums
  by (auto simp: save_defs)

lemma SaveState_restores:
  assumes gs: "GetStateDir E rp w = (Inr d, w1)" and ma: "MarshalIndent E st = Inr data"
    and old: "files w1 (statePath d) = Some old"
    and f: "fault_at 0 w1 = 0" "fault_at 1 w1 = 0" "fault_at 2 w1 \<noteq> 0" "fault_at 3 w1 = 0"
           "fault_at 4 w1 = 0"
    and sv: "SaveState E st rp w = (r, w')"
  shows "r = Some (Errorf ''failed to write state file: %w'' (Some ErrOther))"
    and "files w' (statePath d) = Some old"
    and "files w' (backupPath d) = None"
    and "trace w' = trace w1 @ [SysStat (statePath d),
                               SysRename (statePath d) (backupPath d),
                               SysWriteFile (statePath d) data 420,
                               SysStat (backupPath d),
                               SysRename (backupPath d) (statePath d)]"
  using sv old f gitignore_distinct(3) [of d]
  unfolding SaveState_phases [OF gs ma] fault_at_nums
  by (auto simp: save_defs split: nat.splits)

lemma SaveState_creates:
  assumes gs: "GetStateDir E rp w = (Inr d, w1)" and ma: "MarshalIndent E st = Inr data"
    and old: "files w1 (statePath d) = None"
    and f: "fault_at 0 w1 = 0" "fault_at 1 w1 = 0"
    and sv: "SaveState E st rp w = (r, w')"
  shows "r = None" and "files w' (statePath d) = Some data"
    and "files w' (backupPath d) = files w1 (backupPath d)"
    and "trace w' = trace w1 @ [SysStat (statePath d), SysWriteFile (statePath d) data 420]"
    and "w' = w1\<lparr>files := (files w1)(statePath d \<mapsto> data),
                 trace := trace w1 @ [SysStat (statePath d),
                                      SysWriteFile (statePath d) data 420]\<rparr>"
  using sv old f gitignore_distinct(3) [of d]
  unfolding SaveState_phases [OF gs ma] fault_at_nums
  by (auto simp: save_defs)

lemma SaveState_error:
  assumes gs: "GetStateDir E rp w = (Inr d, w1)" and ma: "MarshalIndent E st = Inr data"
    and sv: "SaveState E st rp w = (r, w')" and r: "r \<noteq> None"
  shows "r = Some (Errorf ''failed to write state file: %w'' (Some ErrOther))"
proof -
  define w4 where "w4 = (case os_Stat (statePath d) w1 of
                (Some _, w2) \<Rightarrow> w2
              | (None, w2) \<Rightarrow>
                  (case os_Rename (statePath d) (backupPath d) w2 of
                     (None, w3) \<Rightarrow> w3
                   | (Some _, w3) \<Rightarrow>
                       (case os_ReadFile (statePath d) w3 of
                          (Inr existing, w3') \<Rightarrow>
                            snd (os_WriteFile (backupPath d) existing 420 w3')
                        | (Inl _, w3') \<Rightarrow> w3')))"
  obtain r5 w5 where wr: "os_WriteFile (statePath d) data 420 w4 = (r5, w5)"
    by (cases "os_WriteFile (statePath d) data 420 w4")
  have "r = (case r5 of None \<Rightarrow> None
             | Some err \<Rightarrow> Some (Errorf ''failed to write state file: %w'' (Some err)))"
    using sv unfolding SaveState_phases [OF gs ma] w4_def [symmetric] wr
    by (auto split: option.splits)
  with r os_WriteFile_frame(7) [OF wr] show ?thesis
    by (cases r5) auto
qed

lemma SaveState_success:
  assumes sv: "SaveState E st rp w = (None, w')"
  shows "\<exists>c data. GetCanonicalRepoPath E rp = Inr c \<and> MarshalIndent E st = Inr data
            \<and> files w' (statePath (Join c StateDirName)) = Some data"
proof -
  obtain g w1 where gs: "GetStateDir E rp w = (g, w1)" by (cases "GetStateDir E rp w")
  obtain d where d: "g = Inr d"
    using sv gs by (cases g) (simp_all add: SaveState_def)
  note gs = gs [unfolded d]
  obtain data where ma: "MarshalIndent E st = Inr data"
    using sv gs by (cases "MarshalIndent E st") (simp_all add: SaveState_def)
  define w4 where "w4 = (case os_Stat (statePath d) w1 of
                (Some _, w2) \<Rightarrow> w2
              | (None, w2) \<Rightarrow>
                  (case os_Rename (statePath d) (backupPath d) w2 of
                     (None, w3) \<Rightarrow> w3
                   | (Some _, w3) \<Rightarrow>
                       (case os_ReadFile (statePath d) w3 of
                          (Inr existing, w3') \<Rightarrow>
                            snd (os_WriteFile (backupPath d) existing 420 w3')
                        | (Inl _, w3') \<Rightarrow> w3')))"
  obtain r5 w5 where wr: "os_WriteFile (statePath d) data 420 w4 = (r5, w5)"
    by (cases "os_WriteFile (statePath d) data 420 w4")
  have "r5 = None \<and> w' = w5"
    using sv unfolding SaveState_phases [OF gs ma] w4_def [symmetric] wr
    by (auto split: option.splits)
  then have "files w' (statePath d) = Some data"
    using os_WriteFile_frame(5) [OF wr] by simp
  moreover obtain c where "GetCanonicalRepoPath E rp = Inr c" "d = Join c StateDirName"
    using GetStateDir_frame(3) [OF gs refl] by blast
  ultimately show ?thesis using ma by blast
qed

section \<open>Loading a corrupt primary\<close>

text \<open>
  C1. When the state directory is available and the primary file is read but does not
  decode, \<open>LoadState\<close> makes exactly two further system calls, in this order: the rename
  of the primary to \<^verbatim>\<open>state.json.corrupted.<unix time>\<close> and the read of
  \<^verbatim>\<open>state.json.bak\<close>. If the rename is not refused, the corrupt bytes are then at the
  new name and the primary is gone. If the backup is read and decodes, its state is
  returned (with the repository path filled in); in every other case the default state
  is.
\<close>

theorem LoadState_corrupt_primary:
  assumes gs: "GetStateDir E rp w = (Inr stateDir, w1)"
    and f0: "fault_at 0 w1 = 0"
    and pr: "files w1 (statePath stateDir) = Some data"
    and un: "Unmarshal E data = None"
    and ls: "LoadState E rp w = (s, w')"
  shows "trace w' = trace w1 @ [SysReadFile (statePath stateDir),
                               SysRename (statePath stateDir) (corruptedPath stateDir (clock w1)),
                               SysReadFile (backupPath stateDir)]
       \<and> (fault_at 1 w1 = 0 \<longrightarrow>
            files w' (corruptedPath stateDir (clock w1)) = Some data
            \<and> files w' (statePath stateDir) = None)
       \<and> (\<forall>b bs. fault_at 2 w1 = 0 \<and> files w1 (backupPath stateDir) = Some b
                   \<and> Unmarshal E b = Some bs \<longrightarrow> s = bs\<lparr>repoPath := rp\<rparr>)
       \<and> (\<not> (fault_at 2 w1 = 0 \<and> (\<exists>b bs. files w1 (backupPath stateDir) = Some b
                                         \<and> Unmarshal E b = Some bs))
            \<longrightarrow> s = DefaultState\<lparr>repoPath := rp\<rparr>)"
proof -
  note run = LoadState_corrupt_run [OF gs f0 pr un ls]
  have d: "s = DefaultState\<lparr>repoPath := rp\<rparr>"
    if "\<not> (fault_at 2 w1 = 0 \<and> (\<exists>b bs. files w1 (backupPath stateDir) = Some b
                                         \<and> Unmarshal E b = Some bs))"
  proof (rule run(6))
    show "fault_at 2 w1 \<noteq> 0 \<or> files w1 (backupPath stateDir) = None
           \<or> (\<exists>b. files w1 (backupPath stateDir) = Some b \<and> Unmarshal E b = None)"
      using that by (cases "files w1 (backupPath stateDir)") auto
  qed
  show ?thesis
    using run(1) run(2) run(3) run(5) d by auto
qed

theorem LoadState_corrupt_primary_witness:
  "fst (LoadState demo_env ''/repo'' world_corrupt)
     = \<lparr>HelpScreensSeen = 3, InstancesData = raw_one, repoPath = ''/repo''\<rparr>
   \<and> trace (snd (LoadState demo_env ''/repo'' world_corrupt))
     = trace_dir0 @
       [SysReadFile ''/repo/.claude-squad/state.json'',
        SysRename ''/repo/.claude-squad/state.json''
                  ''/repo/.claude-squad/state.json.corrupted.1700000000'',
        SysReadFile ''/repo/.claude-squad/state.json.bak'']
   \<and> files (snd (LoadState demo_env ''/repo'' world_corrupt))
        ''/repo/.claude-squad/state.json.corrupted.1700000000'' = Some ''{''
   \<and> files (snd (LoadState demo_env ''/repo'' world_corrupt))
        ''/repo/.claude-squad/state.json'' = None"
  using LoadState_corrupt_primary [OF gs_corrupt corrupt1_facts(1) corrupt1_facts(2)
      demo_Unmarshal_facts(1) surjective_pairing]
    corrupt1_facts(1) [of 1] corrupt1_facts(1) [of 2] corrupt1_facts(3) demo_Unmarshal_facts(2)
  by (simp add: corrupt1_facts(4,5) paths0)

section \<open>What recovery leaves on disk\<close>

text \<open>
  C5, as the claim states it, fails: after \<open>LoadState\<close> has recovered from the backup,
  \<^verbatim>\<open>state.json\<close> does not hold the backup's contents; here it does not exist.
\<close>

theorem LoadState_restore_counterexample:
  "files world_corrupt ''/repo/.claude-squad/state.json'' = Some ''{''
   \<and> Unmarshal demo_env ''{'' = None
   \<and> files world_corrupt ''/repo/.claude-squad/state.json.bak'' = Some doc_seen3
   \<and> Unmarshal demo_env doc_seen3 \<noteq> None
   \<and> files (snd (LoadState demo_env ''/repo'' world_corrupt)) ''/repo/.claude-squad/state.json''
       \<noteq> Some doc_seen3"
proof -
  have "files (snd (LoadState demo_env ''/repo'' world_corrupt)) (statePath stateDir0) = None"
    using LoadState_corrupt_run(3) [OF gs_corrupt corrupt1_facts(1) corrupt1_facts(2)
        demo_Unmarshal_facts(1) surjective_pairing]
    by (simp add: corrupt1_facts(1))
  then show ?thesis
    by (simp add: paths0 demo_Unmarshal_facts world_corrupt_def world0_def)
qed

text \<open>
  C5, amended. When the primary is read but does not decode and the backup holds a
  document that decodes, \<open>LoadState\<close> leaves the backup file as it is and does not write
  \<^verbatim>\<open>state.json\<close>: the file never holds the backup's contents afterwards. If the rename
  is not refused, \<^verbatim>\<open>state.json.corrupted.<unix time>\<close> holds the corrupt bytes and
  \<^verbatim>\<open>state.json\<close> is absent. If the read of the backup is not refused, the state
  returned is the backup's, its instances included.
\<close>

theorem LoadState_recovery_on_disk:
  assumes gs: "GetStateDir E rp w = (Inr stateDir, w1)"
    and f0: "fault_at 0 w1 = 0"
    and pr: "files w1 (statePath stateDir) = Some data"
    and un: "Unmarshal E data = None"
    and bk: "files w1 (backupPath stateDir) = Some b"
    and ub: "Unmarshal E b = Some bs"
    and ls: "LoadState E rp w = (s, w')"
  shows "files w' (backupPath stateDir) = Some b
       \<and> files w' (statePath stateDir) \<noteq> Some b
       \<and> (fault_at 1 w1 = 0 \<longrightarrow>
            files w' (corruptedPath stateDir (clock w1)) = Some data
            \<and> files w' (statePath stateDir) = None)
       \<and> (fault_at 2 w1 = 0 \<longrightarrow>
            s = bs\<lparr>repoPath := rp\<rparr> \<and> InstancesData s = InstancesData bs
            \<and> HelpScreensSeen s = HelpScreensSeen bs)"
proof -
  note run = LoadState_corrupt_run [OF gs f0 pr un ls]
  have "data \<noteq> b" using un ub by auto
  then have "files w' (statePath stateDir) \<noteq> Some b"
    by (simp add: run(3))
  moreover have "files w' (backupPath stateDir) = Some b"
    by (simp add: run(4) bk)
  moreover have "fault_at 2 w1 = 0 \<longrightarrow> s = bs\<lparr>repoPath := rp\<rparr>"
    using run(5) [OF _ bk ub] by simp
  ultimately show ?thesis
    using run(2) run(3) by auto
qed

theorem LoadState_recovery_on_disk_witness:
  "files (snd (LoadState demo_env ''/repo'' world_corrupt))
      ''/repo/.claude-squad/state.json.bak'' = Some doc_seen3
   \<and> files (snd (LoadState demo_env ''/repo'' world_corrupt))
      ''/repo/.claude-squad/state.json'' = None
   \<and> files (snd (LoadState demo_env ''/repo'' world_corrupt))
        ''/repo/.claude-squad/state.json.corrupted.1700000000'' = Some ''{''
   \<and> InstancesData (fst (LoadState demo_env ''/repo'' world_corrupt)) = raw_one
   \<and> HelpScreensSeen (fst (LoadState demo_env ''/repo'' world_corrupt)) = 3"
  using LoadState_recovery_on_disk [OF gs_corrupt corrupt1_facts(1) corrupt1_facts(2)
      demo_Unmarshal_facts(1) corrupt1_facts(3) demo_Unmarshal_facts(2) surjective_pairing]
    corrupt1_facts(1) [of 1] corrupt1_facts(1) [of 2]
  by (simp add: corrupt1_facts(4) paths0)

section \<open>Which repository path a loaded state carries\<close>

text \<open>
  C8. Once the state directory is available: on the branch where the state file does
  not exist, \<open>LoadState\<close> returns the default state with an empty \<open>repoPath\<close>, and
  \<open>SaveInstances\<close>, \<open>DeleteAllInstances\<close> and \<open>SetHelpScreensSeen\<close> on that state call
  \<open>SaveState\<close> with the empty path; on every other branch (the file cannot be read, it
  decodes, the backup is adopted, nothing can be recovered) the returned state's
  \<open>repoPath\<close> is the argument.
\<close>

theorem LoadState_repoPath_field:
  assumes gs: "GetStateDir E rp w = (Inr stateDir, w1)"
  shows "(fault_at 0 w1 = 0 \<and> files w1 (statePath stateDir) = None \<longrightarrow>
            repoPath (fst (LoadState E rp w)) = []
            \<and> (\<forall>j v. SaveInstances E (fst (LoadState E rp w)) j v
                  = (case SaveState E (DefaultState\<lparr>InstancesData := j\<rparr>) [] v of
                       (err, v') \<Rightarrow> (err, DefaultState\<lparr>InstancesData := j\<rparr>, v')))
            \<and> (\<forall>v. DeleteAllInstances E (fst (LoadState E rp w)) v
                  = (case SaveState E (DefaultState\<lparr>InstancesData := ''[]''\<rparr>) [] v of
                       (err, v') \<Rightarrow> (err, DefaultState\<lparr>InstancesData := ''[]''\<rparr>, v')))
            \<and> (\<forall>seen v. SetHelpScreensSeen E (fst (LoadState E rp w)) seen v
                  = (case SaveState E (DefaultState\<lparr>HelpScreensSeen := seen\<rparr>) [] v of
                       (err, v') \<Rightarrow> (err, DefaultState\<lparr>HelpScreensSeen := seen\<rparr>, v'))))
       \<and> (\<not> (fault_at 0 w1 = 0 \<and> files w1 (statePath stateDir) = None) \<longrightarrow>
            repoPath (fst (LoadState E rp w)) = rp)"
proof (intro conjI impI)
  assume a: "fault_at 0 w1 = 0 \<and> files w1 (statePath stateDir) = None"
  then have l: "fst (LoadState E rp w) = DefaultState"
    using LoadState_absent [OF gs] by simp
  show "repoPath (fst (LoadState E rp w)) = []"
    by (simp add: l DefaultState_def)
  show "\<forall>j v. SaveInstances E (fst (LoadState E rp w)) j v
                  = (case SaveState E (DefaultState\<lparr>InstancesData := j\<rparr>) [] v of
                       (err, v') \<Rightarrow> (err, DefaultState\<lparr>InstancesData := j\<rparr>, v'))"
    by (simp add: l SaveInstances_def Let_def) (simp add: DefaultState_def)
  show "\<forall>v. DeleteAllInstances E (fst (LoadState E rp w)) v
                  = (case SaveState E (DefaultState\<lparr>InstancesData := ''[]''\<rparr>) [] v of
                       (err, v') \<Rightarrow> (err, DefaultState\<lparr>InstancesData := ''[]''\<rparr>, v'))"
    by (simp add: l DeleteAllInstances_def Let_def) (simp add: DefaultState_def)
  show "\<forall>seen v. SetHelpScreensSeen E (fst (LoadState E rp w)) seen v
                  = (case SaveState E (DefaultState\<lparr>HelpScreensSeen := seen\<rparr>) [] v of
                       (err, v') \<Rightarrow> (err, DefaultState\<lparr>HelpScreensSeen := seen\<rparr>, v'))"
    by (simp add: l SetHelpScreensSeen_def Let_def) (simp add: DefaultState_def)
next
  assume n: "\<not> (fault_at 0 w1 = 0 \<and> files w1 (statePath stateDir) = None)"
  show "repoPath (fst (LoadState E rp w)) = rp"
  proof (cases "fault_at 0 w1 = 0")
    case False
    then show ?thesis using LoadState_unreadable [OF gs] by simp
  next
    case True
    with n obtain data where pr: "files w1 (statePath stateDir) = Some data" by auto
    show ?thesis
    proof (cases "Unmarshal E data")
      case (Some state)
      then show ?thesis using LoadState_decoded [OF gs True pr] by simp
    next
      case None
      note run = LoadState_corrupt_run [OF gs True pr None surjective_pairing]
      show ?thesis
      proof (cases "fault_at 2 w1 = 0 \<and> (\<exists>b bs. files w1 (backupPath stateDir) = Some b
                                         \<and> Unmarshal E b = Some bs)")
        case True
        then obtain b bs where "fault_at 2 w1 = 0" "files w1 (backupPath stateDir) = Some b"
          "Unmarshal E b = Some bs" by blast
        then show ?thesis using run(5) by simp
      next
        case False
        then have "fault_at 2 w1 \<noteq> 0 \<or> files w1 (backupPath stateDir) = None
           \<or> (\<exists>b. files w1 (backupPath stateDir) = Some b \<and> Unmarshal E b = None)"
          by (cases "files w1 (backupPath stateDir)") auto
        then show ?thesis using run(6) by simp
      qed
    qed
  qed
qed

text \<open>
  Loading in a fresh repository writes the default document there; a later update made
  through the returned state lands below the working directory.
\<close>

lemma fresh_repo_run:
  "fst (LoadState demo_env ''/repo'' world0) = DefaultState"
  "files (snd (LoadState demo_env ''/repo'' world0)) ''/repo/.claude-squad/state.json''
     = Some doc_default"
  "files (snd (snd (SetHelpScreensSeen demo_env DefaultState 3
                      (snd (LoadState demo_env ''/repo'' world0)))))
      ''/repo/.claude-squad/state.json'' = Some doc_default"
  "files (snd (snd (SetHelpScreensSeen demo_env DefaultState 3
                      (snd (LoadState demo_env ''/repo'' world0)))))
      ''/home/user/.claude-squad/state.json'' = Some doc_reset3"
proof -
  define w1 where "w1 = world0\<lparr>dirs := insert stateDir0 (dirs world0),
        files := (files world0)(gitignore0 \<mapsto> [CHR ''*'', CHR 0x0A]),
        trace := trace world0 @ [SysMkdirAll stateDir0 493, SysStat gitignore0,
                                 SysWriteFile gitignore0 [CHR ''*'', CHR 0x0A] 420]\<rparr>"
  have gs1: "GetStateDir demo_env ''/repo'' world0 = (Inr stateDir0, w1)"
    using GetStateDir_run_absent [OF canon_repo, of world0] unfolding w1_def
    by (simp add: dir0) (simp add: world0_def fault_at_def gitignore0_def)
  have f1: "fault_at 0 w1 = 0" "files w1 (statePath stateDir0) = None"
    by (simp_all add: w1_def world0_def fault_at_def paths0 gitignore0_def)
  define w2 where "w2 = w1\<lparr>trace := trace w1 @ [SysReadFile (statePath stateDir0)]\<rparr>"
  have l: "LoadState demo_env ''/repo'' world0
             = (DefaultState, snd (SaveState demo_env DefaultState ''/repo'' w2))"
    using LoadState_absent [OF gs1 f1] by (simp add: w2_def)
  define w3 where "w3 = w2\<lparr>dirs := insert stateDir0 (dirs w2),
        trace := trace w2 @ [SysMkdirAll stateDir0 493, SysStat gitignore0]\<rparr>"
  have gs2: "GetStateDir demo_env ''/repo'' w2 = (Inr stateDir0, w3)"
    using GetStateDir_run_present [OF canon_repo, of w2] unfolding w3_def
    by (simp add: dir0) (simp add: w2_def w1_def world0_def fault_at_def gitignore0_def)
  have f3: "files w3 (statePath stateDir0) = None" "fault_at 0 w3 = 0" "fault_at 1 w3 = 0"
    by (simp_all add: w3_def w2_def w1_def world0_def fault_at_def paths0 gitignore0_def)
  define v where "v = w3\<lparr>files := (files w3)(statePath stateDir0 \<mapsto> doc_default),
                 trace := trace w3 @ [SysStat (statePath stateDir0),
                                      SysWriteFile (statePath stateDir0) doc_default 420]\<rparr>"
  have sv: "snd (SaveState demo_env DefaultState ''/repo'' w2) = v"
    using SaveState_creates(5) [OF gs2 demo_Marshal_default f3 surjective_pairing]
    by (simp add: v_def)
  have lv: "snd (LoadState demo_env ''/repo'' world0) = v"
    by (simp add: l sv)
  show "fst (LoadState demo_env ''/repo'' world0) = DefaultState"
    by (simp add: l)
  show "files (snd (LoadState demo_env ''/repo'' world0)) ''/repo/.claude-squad/state.json''
     = Some doc_default"
    by (simp add: lv v_def paths0 [symmetric])
  define home where "home = Join ''/home/user'' StateDirName"
  have hp: "statePath home = ''/home/user/.claude-squad/state.json''"
    "Join home ''.gitignore'' = ''/home/user/.claude-squad/.gitignore''"
    by (simp_all add: home_def path_defs)
  define v1 where "v1 = v\<lparr>dirs := insert home (dirs v),
        files := (files v)(Join home ''.gitignore'' \<mapsto> [CHR ''*'', CHR 0x0A]),
        trace := trace v @ [SysMkdirAll home 493, SysStat (Join home ''.gitignore''),
                            SysWriteFile (Join home ''.gitignore'') [CHR ''*'', CHR 0x0A] 420]\<rparr>"
  have gs3: "GetStateDir demo_env [] v = (Inr home, v1)"
    using GetStateDir_run_absent [OF canon_empty, of v] unfolding v1_def home_def [symmetric]
    by (simp add: v_def w3_def w2_def w1_def world0_def fault_at_def hp paths0 gitignore0_def)
  have f4: "files v1 (statePath home) = None" "fault_at 0 v1 = 0" "fault_at 1 v1 = 0"
    by (simp_all add: v1_def v_def w3_def w2_def w1_def world0_def fault_at_def hp paths0
        gitignore0_def)
  define fin where "fin = v1\<lparr>files := (files v1)(statePath home \<mapsto> doc_reset3),
                 trace := trace v1 @ [SysStat (statePath home),
                                      SysWriteFile (statePath home) doc_reset3 420]\<rparr>"
  have sv2: "snd (SaveState demo_env (DefaultState\<lparr>HelpScreensSeen := 3\<rparr>) [] v) = fin"
    using SaveState_creates(5) [OF gs3 demo_Marshal_seen f4 surjective_pairing]
    by (simp add: fin_def)
  have sh: "snd (snd (SetHelpScreensSeen demo_env DefaultState 3 v)) = fin"
    using sv2 by (auto simp: SetHelpScreensSeen_def Let_def DefaultState_def split: prod.splits)
  show "files (snd (snd (SetHelpScreensSeen demo_env DefaultState 3
                      (snd (LoadState demo_env ''/repo'' world0)))))
      ''/repo/.claude-squad/state.json'' = Some doc_default"
    unfolding lv sh
    by (simp add: fin_def v1_def v_def hp paths0)
  show "files (snd (snd (SetHelpScreensSeen demo_env DefaultState 3
                      (snd (LoadState demo_env ''/repo'' world0)))))
      ''/home/user/.claude-squad/state.json'' = Some doc_reset3"
    unfolding lv sh
    by (simp add: fin_def hp)
qed

theorem LoadState_repoPath_field_witness:
  "repoPath (fst (LoadState demo_env ''/repo'' world0)) = []
   \<and> repoPath (fst (LoadState demo_env ''/repo'' world_good)) = ''/repo''
   \<and> files (snd (snd (SetHelpScreensSeen demo_env (fst (LoadState demo_env ''/repo'' world0)) 3
                        (snd (LoadState demo_env ''/repo'' world0)))))
        ''/repo/.claude-squad/state.json'' = Some doc_default
   \<and> files (snd (snd (SetHelpScreensSeen demo_env (fst (LoadState demo_env ''/repo'' world0)) 3
                        (snd (LoadState demo_env ''/repo'' world0)))))
        ''/home/user/.claude-squad/state.json'' = Some doc_reset3
   \<and> SetHelpScreensSeen demo_env (fst (LoadState demo_env ''/repo'' world0)) 3 world0
       = (case SaveState demo_env (DefaultState\<lparr>HelpScreensSeen := 3\<rparr>) [] world0 of
            (err, v') \<Rightarrow> (err, DefaultState\<lparr>HelpScreensSeen := 3\<rparr>, v'))"
proof -
  let ?w1 = "world0\<lparr>dirs := insert stateDir0 (dirs world0),
        files := (files world0)(gitignore0 \<mapsto> [CHR ''*'', CHR 0x0A]),
        trace := trace world0 @ [SysMkdirAll stateDir0 493, SysStat gitignore0,
                                 SysWriteFile gitignore0 [CHR ''*'', CHR 0x0A] 420]\<rparr>"
  have gs1: "GetStateDir demo_env ''/repo'' world0 = (Inr stateDir0, ?w1)"
    using GetStateDir_run_absent [OF canon_repo, of world0]
    by (simp add: dir0) (simp add: world0_def fault_at_def gitignore0_def)
  have f1: "fault_at 0 ?w1 = 0 \<and> files ?w1 (statePath stateDir0) = None"
    by (simp add: world0_def fault_at_def paths0 gitignore0_def)
  let ?g1 = "world_good\<lparr>dirs := insert stateDir0 (dirs world_good),
        trace := trace world_good @ [SysMkdirAll stateDir0 493, SysStat gitignore0]\<rparr>"
  have f2: "\<not> (fault_at 0 ?g1 = 0 \<and> files ?g1 (statePath stateDir0) = None)"
    by (simp add: world_good_def world0_def paths0)
  from LoadState_repoPath_field [OF gs1] f1
  have 1: "repoPath (fst (LoadState demo_env ''/repo'' world0)) = []
     \<and> SetHelpScreensSeen demo_env (fst (LoadState demo_env ''/repo'' world0)) 3 world0
       = (case SaveState demo_env (DefaultState\<lparr>HelpScreensSeen := 3\<rparr>) [] world0 of
            (err, v') \<Rightarrow> (err, DefaultState\<lparr>HelpScreensSeen := 3\<rparr>, v'))"
    by blast
  from LoadState_repoPath_field [OF gs_good] f2
  have 2: "repoPath (fst (LoadState demo_env ''/repo'' world_good)) = ''/repo''"
    by blast
  from 1 2 fresh_repo_run show ?thesis by simp
qed

section \<open>Loading never fails\<close>

text \<open>
  C9. \<open>LoadState\<close> returns a state for every repository path and every world; there is
  no error in its result. When the state directory is unavailable, when the state file
  cannot be read, and when neither the primary nor the backup can be decoded, the state
  returned is the default one: no help screen seen and the instances \<^verbatim>\<open>[]\<close>.
\<close>

theorem LoadState_total:
  "(\<exists>s w'. LoadState E rp w = (s, w'))
   \<and> (\<forall>e w1. GetStateDir E rp w = (Inl e, w1) \<longrightarrow> fst (LoadState E rp w) = DefaultState)
   \<and> (\<forall>d w1. GetStateDir E rp w = (Inr d, w1) \<and> fault_at 0 w1 \<noteq> 0 \<longrightarrow>
         fst (LoadState E rp w) = DefaultState\<lparr>repoPath := rp\<rparr>)
   \<and> (\<forall>d w1 data. GetStateDir E rp w = (Inr d, w1) \<and> fault_at 0 w1 = 0
         \<and> files w1 (statePath d) = Some data \<and> Unmarshal E data = None
         \<and> (fault_at 2 w1 \<noteq> 0 \<or> files w1 (backupPath d) = None
             \<or> (\<exists>b. files w1 (backupPath d) = Some b \<and> Unmarshal E b = None)) \<longrightarrow>
         fst (LoadState E rp w) = DefaultState\<lparr>repoPath := rp\<rparr>)
   \<and> HelpScreensSeen (DefaultState\<lparr>repoPath := rp\<rparr>) = 0
   \<and> InstancesData (DefaultState\<lparr>repoPath := rp\<rparr>) = ''[]''
   \<and> HelpScreensSeen DefaultState = 0 \<and> InstancesData DefaultState = ''[]''"
proof -
  have a: "\<exists>s w'. LoadState E rp w = (s, w')"
    by (simp add: prod_eq_iff)
  have b: "\<forall>e w1. GetStateDir E rp w = (Inl e, w1) \<longrightarrow> fst (LoadState E rp w) = DefaultState"
    by (simp add: LoadState_no_dir)
  have c: "\<forall>d w1. GetStateDir E rp w = (Inr d, w1) \<and> fault_at 0 w1 \<noteq> 0 \<longrightarrow>
         fst (LoadState E rp w) = DefaultState\<lparr>repoPath := rp\<rparr>"
    by (simp add: LoadState_unreadable)
  have d: "\<forall>d w1 data. GetStateDir E rp w = (Inr d, w1) \<and> fault_at 0 w1 = 0
         \<and> files w1 (statePath d) = Some data \<and> Unmarshal E data = None
         \<and> (fault_at 2 w1 \<noteq> 0 \<or> files w1 (backupPath d) = None
             \<or> (\<exists>b. files w1 (backupPath d) = Some b \<and> Unmarshal E b = None)) \<longrightarrow>
         fst (LoadState E rp w) = DefaultState\<lparr>repoPath := rp\<rparr>"
    using LoadState_corrupt_run(6) [OF _ _ _ _ surjective_pairing] by blast
  from a b c d show ?thesis by (simp add: DefaultState_def)
qed

theorem LoadState_total_witness:
  "fst (LoadState demo_env ''/missing'' world0) = DefaultState
   \<and> fst (LoadState demo_env ''/repo'' world_lost)
       = \<lparr>HelpScreensSeen = 0, InstancesData = ''[]'', repoPath = ''/repo''\<rparr>"
proof -
  let ?w1 = "world_lost\<lparr>dirs := insert stateDir0 (dirs world_lost),
        files := (files world_lost)(gitignore0 \<mapsto> [CHR ''*'', CHR 0x0A]),
        trace := trace world_lost @ [SysMkdirAll stateDir0 493, SysStat gitignore0,
                                     SysWriteFile gitignore0 [CHR ''*'', CHR 0x0A] 420]\<rparr>"
  have f: "fault_at 0 ?w1 = 0" "files ?w1 (statePath stateDir0) = Some ''{''"
    "files ?w1 (backupPath stateDir0) = None"
    by (simp_all add: world_lost_def world0_def fault_at_def paths0 gitignore0_def)
  note t = LoadState_total [of demo_env]
  from canon_missing t [of "''/missing''" world0]
  have 1: "fst (LoadState demo_env ''/missing'' world0) = DefaultState" by blast
  from t [of "''/repo''" world_lost] gs_lost f demo_Unmarshal_facts(1)
  have 2: "fst (LoadState demo_env ''/repo'' world_lost) = DefaultState\<lparr>repoPath := ''/repo''\<rparr>"
    by blast
  from 1 2 show ?thesis by (simp add: DefaultState_def)
qed

section \<open>Saving rotates the backup\<close>

text \<open>
  C2. Whatever system calls are refused, \<open>SaveState\<close> keeps at least one of
  \<^verbatim>\<open>state.json\<close> and \<^verbatim>\<open>state.json.bak\<close> whenever one of them existed at entry. When
  the state directory is available, the state encodes and a primary exists: the primary
  is first moved to \<^verbatim>\<open>state.json.bak\<close> and the new primary is then written with mode
  0644; if the move is refused, the primary is read and copied to the backup before the
  write; if the write of the new primary is refused after the move, the backup is moved
  back over the primary and the error \<^verbatim>\<open>failed to write state file\<close> is returned. The
  only error of a save whose state encodes is that one.
\<close>

theorem SaveState_backup_then_write:
  assumes sv: "SaveState E st rp w = (r, w')"
  shows "(\<forall>c. GetCanonicalRepoPath E rp = Inr c
             \<and> (files w (statePath (Join c StateDirName)) \<noteq> None
                \<or> files w (backupPath (Join c StateDirName)) \<noteq> None) \<longrightarrow>
             files w' (statePath (Join c StateDirName)) \<noteq> None
             \<or> files w' (backupPath (Join c StateDirName)) \<noteq> None)
       \<and> (\<forall>d w1 data old. GetStateDir E rp w = (Inr d, w1)
             \<and> MarshalIndent E st = Inr data \<and> files w1 (statePath d) = Some old
             \<and> fault_at 0 w1 = 0 \<and> fault_at 1 w1 = 0 \<and> fault_at 2 w1 = 0 \<longrightarrow>
             r = None \<and> files w' (statePath d) = Some data
             \<and> files w' (backupPath d) = Some old
             \<and> trace w' = trace w1 @ [SysStat (statePath d),
                                        SysRename (statePath d) (backupPath d),
                                        SysWriteFile (statePath d) data 420])
       \<and> (\<forall>d w1 data old. GetStateDir E rp w = (Inr d, w1)
             \<and> MarshalIndent E st = Inr data \<and> files w1 (statePath d) = Some old
             \<and> fault_at 0 w1 = 0 \<and> fault_at 1 w1 \<noteq> 0 \<and> fault_at 2 w1 = 0
             \<and> fault_at 3 w1 = 0 \<and> fault_at 4 w1 = 0 \<longrightarrow>
             r = None \<and> files w' (statePath d) = Some data
             \<and> files w' (backupPath d) = Some old
             \<and> trace w' = trace w1 @ [SysStat (statePath d),
                                        SysRename (statePath d) (backupPath d),
                                        SysReadFile (statePath d),
                                        SysWriteFile (backupPath d) old 420,
                                        SysWriteFile (statePath d) data 420])
       \<and> (\<forall>d w1 data old. GetStateDir E rp w = (Inr d, w1)
             \<and> MarshalIndent E st = Inr data \<and> files w1 (statePath d) = Some old
             \<and> fault_at 0 w1 = 0 \<and> fault_at 1 w1 = 0 \<and> fault_at 2 w1 \<noteq> 0
             \<and> fault_at 3 w1 = 0 \<and> fault_at 4 w1 = 0 \<longrightarrow>
             r = Some (Errorf ''failed to write state file: %w'' (Some ErrOther))
             \<and> files w' (statePath d) = Some old \<and> files w' (backupPath d) = None
             \<and> trace w' = trace w1 @ [SysStat (statePath d),
                                        SysRename (statePath d) (backupPath d),
                                        SysWriteFile (statePath d) data 420,
                                        SysStat (backupPath d),
                                        SysRename (backupPath d) (statePath d)])
       \<and> (\<forall>d w1 data. GetStateDir E rp w = (Inr d, w1)
             \<and> MarshalIndent E st = Inr data \<and> r \<noteq> None \<longrightarrow>
             r = Some (Errorf ''failed to write state file: %w'' (Some ErrOther)))"
proof -
  have 1: "files w' (statePath (Join c StateDirName)) \<noteq> None
             \<or> files w' (backupPath (Join c StateDirName)) \<noteq> None"
    if c: "GetCanonicalRepoPath E rp = Inr c"
      and h: "files w (statePath (Join c StateDirName)) \<noteq> None
                \<or> files w (backupPath (Join c StateDirName)) \<noteq> None"
    for c
  proof -
    obtain g w1 where gs: "GetStateDir E rp w = (g, w1)" by (cases "GetStateDir E rp w")
    show ?thesis
    proof (cases g)
      case (Inl e)
      then have "w' = w1" using sv gs by (simp add: SaveState_def)
      moreover have "files w1 = files w" using GetStateDir_frame(5) [OF gs Inl] .
      ultimately show ?thesis using h by simp
    next
      case (Inr d)
      with GetStateDir_frame(3) [OF gs Inr] c have "d = Join c StateDirName" by simp
      with SaveState_keeps_a_copy [OF sv gs [unfolded Inr]] h show ?thesis by simp
    qed
  qed
  have 2: "r = None \<and> files w' (statePath d) = Some data
             \<and> files w' (backupPath d) = Some old
             \<and> trace w' = trace w1 @ [SysStat (statePath d),
                                        SysRename (statePath d) (backupPath d),
                                        SysWriteFile (statePath d) data 420]"
    if "GetStateDir E rp w = (Inr d, w1) \<and> MarshalIndent E st = Inr data
          \<and> files w1 (statePath d) = Some old
          \<and> fault_at 0 w1 = 0 \<and> fault_at 1 w1 = 0 \<and> fault_at 2 w1 = 0"
    for d w1 data old
    using that SaveState_rotates(1-4) [OF _ _ _ _ _ _ sv, of d w1 data old] by blast
  have 3: "r = None \<and> files w' (statePath d) = Some data
             \<and> files w' (backupPath d) = Some old
             \<and> trace w' = trace w1 @ [SysStat (statePath d),
                                        SysRename (statePath d) (backupPath d),
                                        SysReadFile (statePath d),
                                        SysWriteFile (backupPath d) old 420,
                                        SysWriteFile (statePath d) data 420]"
    if "GetStateDir E rp w = (Inr d, w1) \<and> MarshalIndent E st = Inr data
          \<and> files w1 (statePath d) = Some old
          \<and> fault_at 0 w1 = 0 \<and> fault_at 1 w1 \<noteq> 0 \<and> fault_at 2 w1 = 0
          \<and> fault_at 3 w1 = 0 \<and> fault_at 4 w1 = 0"
    for d w1 data old
    using that SaveState_copies [OF _ _ _ _ _ _ _ _ sv, of d w1 data old] by blast
  have 4: "r = Some (Errorf ''failed to write state file: %w'' (Some ErrOther))
             \<and> files w' (statePath d) = Some old \<and> files w' (backupPath d) = None
             \<and> trace w' = trace w1 @ [SysStat (statePath d),
                                        SysRename (statePath d) (backupPath d),
                                        SysWriteFile (statePath d) data 420,
                                        SysStat (backupPath d),
                                        SysRename (backupPath d) (statePath d)]"
    if "GetStateDir E rp w = (Inr d, w1) \<and> MarshalIndent E st = Inr data
          \<and> files w1 (statePath d) = Some old
          \<and> fault_at 0 w1 = 0 \<and> fault_at 1 w1 = 0 \<and> fault_at 2 w1 \<noteq> 0
          \<and> fault_at 3 w1 = 0 \<and> fault_at 4 w1 = 0"
    for d w1 data old
    using that SaveState_restores [OF _ _ _ _ _ _ _ _ sv, of d w1 data old] by blast
  have 5: "r = Some (Errorf ''failed to write state file: %w'' (Some ErrOther))"
    if "GetStateDir E rp w = (Inr d, w1) \<and> MarshalIndent E st = Inr data \<and> r \<noteq> None"
    for d w1 data
    using that SaveState_error [OF _ _ sv, of d w1 data] by blast
  show ?thesis
    apply (intro conjI allI impI)
    subgoal for c using 1 [of c] by blast
    subgoal for d w1 data old using 2 [of d w1 data old] by blast
    subgoal for d w1 data old using 2 [of d w1 data old] by blast
    subgoal for d w1 data old using 2 [of d w1 data old] by blast
    subgoal for d w1 data old using 2 [of d w1 data old] by blast
    subgoal for d w1 data old using 3 [of d w1 data old] by blast
    subgoal for d w1 data old using 3 [of d w1 data old] by blast
    subgoal for d w1 data old using 3 [of d w1 data old] by blast
    subgoal for d w1 data old using 3 [of d w1 data old] by blast
    subgoal for d w1 data old using 4 [of d w1 data old] by blast
    subgoal for d w1 data old using 4 [of d w1 data old] by blast
    subgoal for d w1 data old using 4 [of d w1 data old] by blast
    subgoal for d w1 data old using 4 [of d w1 data old] by blast
    subgoal for d w1 data using 5 [of d w1 data] by blast
    done
qed

theorem SaveState_backup_then_write_witness:
  "fst (SaveState demo_env \<lparr>HelpScreensSeen = 3, InstancesData = ''[]'', repoPath = ''/repo''\<rparr>
          ''/repo'' world_good) = None
   \<and> files (snd (SaveState demo_env
                   \<lparr>HelpScreensSeen = 3, InstancesData = ''[]'', repoPath = ''/repo''\<rparr>
                   ''/repo'' world_good)) ''/repo/.claude-squad/state.json'' = Some doc_reset3
   \<and> files (snd (SaveState demo_env
                   \<lparr>HelpScreensSeen = 3, InstancesData = ''[]'', repoPath = ''/repo''\<rparr>
                   ''/repo'' world_good)) ''/repo/.claude-squad/state.json.bak'' = Some doc_seen3
   \<and> fst (SaveState demo_env \<lparr>HelpScreensSeen = 3, InstancesData = ''[]'', repoPath = ''/repo''\<rparr>
          ''/repo'' world_full)
       = Some (Errorf ''failed to write state file: %w'' (Some ErrOther))
   \<and> files (snd (SaveState demo_env
                   \<lparr>HelpScreensSeen = 3, InstancesData = ''[]'', repoPath = ''/repo''\<rparr>
                   ''/repo'' world_full)) ''/repo/.claude-squad/state.json'' = Some doc_seen3
   \<and> files (snd (SaveState demo_env
                   \<lparr>HelpScreensSeen = 3, InstancesData = ''[]'', repoPath = ''/repo''\<rparr>
                   ''/repo'' world_full)) ''/repo/.claude-squad/state.json.bak'' = None"
proof -
  let ?st = "\<lparr>HelpScreensSeen = 3, InstancesData = ''[]'', repoPath = ''/repo''\<rparr>"
  let ?g1 = "world_good\<lparr>dirs := insert stateDir0 (dirs world_good),
        trace := trace world_good @ [SysMkdirAll stateDir0 493, SysStat gitignore0]\<rparr>"
  let ?f1 = "world_full\<lparr>dirs := insert stateDir0 (dirs world_full),
        trace := trace world_full @ [SysMkdirAll stateDir0 493, SysStat gitignore0]\<rparr>"
  have g: "files ?g1 (statePath stateDir0) = Some doc_seen3"
    "fault_at 0 ?g1 = 0" "fault_at 1 ?g1 = 0" "fault_at 2 ?g1 = 0"
    by (simp_all add: paths0 world_good_def world0_def fault_at_def)
  have f: "files ?f1 (statePath stateDir0) = Some doc_seen3"
    "fault_at 0 ?f1 = 0" "fault_at 1 ?f1 = 0" "fault_at 2 ?f1 \<noteq> 0"
    "fault_at 3 ?f1 = 0" "fault_at 4 ?f1 = 0"
    by (simp_all add: paths0 world_full_def world_good_def world0_def fault_at_def)
  note a = SaveState_backup_then_write [where E = demo_env and st = ?st and rp = "''/repo''"
      and w = world_good, OF surjective_pairing]
  note b = SaveState_backup_then_write [where E = demo_env and st = ?st and rp = "''/repo''"
      and w = world_full, OF surjective_pairing]
  from a g gs_good demo_Marshal_reset3 [of "''/repo''"]
  have 1: "fst (SaveState demo_env ?st ''/repo'' world_good) = None
     \<and> files (snd (SaveState demo_env ?st ''/repo'' world_good)) (statePath stateDir0)
         = Some doc_reset3
     \<and> files (snd (SaveState demo_env ?st ''/repo'' world_good)) (backupPath stateDir0)
         = Some doc_seen3"
    by blast
  from b f gs_full demo_Marshal_reset3 [of "''/repo''"]
  have 2: "fst (SaveState demo_env ?st ''/repo'' world_full)
         = Some (Errorf ''failed to write state file: %w'' (Some ErrOther))
     \<and> files (snd (SaveState demo_env ?st ''/repo'' world_full)) (statePath stateDir0)
         = Some doc_seen3
     \<and> files (snd (SaveState demo_env ?st ''/repo'' world_full)) (backupPath stateDir0)
         = None"
    by blast
  from 1 2 show ?thesis by (simp add: paths0)
qed

section \<open>Reset, then load\<close>

lemma load_after_delete:
  assumes dl: "DeleteAllInstances E s w = (None, s', w')"
    and cn: "GetCanonicalRepoPath E (repoPath s) = GetCanonicalRepoPath E rp"
    and ma: "MarshalIndent E (s\<lparr>InstancesData := ''[]''\<rparr>) = Inr data"
    and un: "Unmarshal E data = Some u"
    and nf: "no_faults w'"
  shows "fst (LoadState E rp w') = u\<lparr>repoPath := rp\<rparr>"
proof -
  have sv: "SaveState E (s\<lparr>InstancesData := ''[]''\<rparr>) (repoPath s) w = (None, w')"
    using dl by (auto simp: DeleteAllInstances_def Let_def split: prod.splits)
  from SaveState_success [OF sv] ma obtain c where
    c: "GetCanonicalRepoPath E (repoPath s) = Inr c"
    and f: "files w' (statePath (Join c StateDirName)) = Some data"
    by auto
  from c cn have c': "GetCanonicalRepoPath E rp = Inr c" by simp
  from GetStateDir_no_faults [OF c' nf] obtain w1 where
    gs: "GetStateDir E rp w' = (Inr (Join c StateDirName), w1)" and nf1: "no_faults w1"
    and fr: "\<forall>q. q \<noteq> Join (Join c StateDirName) ''.gitignore'' \<longrightarrow> files w1 q = files w' q"
    by blast
  have f1: "files w1 (statePath (Join c StateDirName)) = Some data"
    using fr f gitignore_distinct(1) by metis
  have f0: "fault_at 0 w1 = 0" using nf1 by (simp add: no_faults_def)
  show ?thesis using LoadState_decoded [OF gs f0 f1 un] by simp
qed

text \<open>The reset command in the repository of the example, step by step.\<close>

lemma reset_good_run:
  "LoadState demo_env ''/repo'' world_good
     = (\<lparr>HelpScreensSeen = 3, InstancesData = raw_one, repoPath = ''/repo''\<rparr>,
        world_good\<lparr>dirs := insert stateDir0 (dirs world_good),
          trace := trace world_good @ [SysMkdirAll stateDir0 493, SysStat gitignore0,
                                       SysReadFile (statePath stateDir0)]\<rparr>)"
  "fst (resetCmd demo_env ''/repo'' world_good) = None"
  "no_faults (snd (resetCmd demo_env ''/repo'' world_good))"
proof -
  let ?s = "\<lparr>HelpScreensSeen = 3, InstancesData = raw_one, repoPath = ''/repo''\<rparr>"
  define w1 where "w1 = world_good\<lparr>dirs := insert stateDir0 (dirs world_good),
        trace := trace world_good @ [SysMkdirAll stateDir0 493, SysStat gitignore0]\<rparr>"
  have gs1: "GetStateDir demo_env ''/repo'' world_good = (Inr stateDir0, w1)"
    by (simp add: gs_good w1_def)
  have f1: "fault_at 0 w1 = 0" "files w1 (statePath stateDir0) = Some doc_seen3"
    by (simp_all add: w1_def world_good_def world0_def fault_at_def paths0)
  define w2 where "w2 = w1\<lparr>trace := trace w1 @ [SysReadFile (statePath stateDir0)]\<rparr>"
  have l: "LoadState demo_env ''/repo'' world_good = (?s, w2)"
    using LoadState_decoded [OF gs1 f1 demo_Unmarshal_facts(2)] by (simp add: w2_def)
  show "LoadState demo_env ''/repo'' world_good
     = (?s, world_good\<lparr>dirs := insert stateDir0 (dirs world_good),
          trace := trace world_good @ [SysMkdirAll stateDir0 493, SysStat gitignore0,
                                       SysReadFile (statePath stateDir0)]\<rparr>)"
    by (simp add: l w2_def w1_def)
  define w3 where "w3 = w2\<lparr>dirs := insert stateDir0 (dirs w2),
        trace := trace w2 @ [SysMkdirAll stateDir0 493, SysStat gitignore0]\<rparr>"
  have gs3: "GetStateDir demo_env ''/repo'' w2 = (Inr stateDir0, w3)"
    using GetStateDir_run_present [OF canon_repo, of w2] unfolding w3_def
    by (simp add: dir0)
       (simp add: w2_def w1_def world_good_def world0_def fault_at_def gitignore0_def)
  have f3: "files w3 (statePath stateDir0) = Some doc_seen3"
    "fault_at 0 w3 = 0" "fault_at 1 w3 = 0" "fault_at 2 w3 = 0"
    by (simp_all add: w3_def w2_def w1_def world_good_def world0_def fault_at_def paths0)
  obtain r w' where sv: "SaveState demo_env (?s\<lparr>InstancesData := ''[]''\<rparr>) ''/repo'' w2 = (r, w')"
    by (cases "SaveState demo_env (?s\<lparr>InstancesData := ''[]''\<rparr>) ''/repo'' w2")
  have ma: "MarshalIndent demo_env (?s\<lparr>InstancesData := ''[]''\<rparr>) = Inr doc_reset3"
    by (simp add: demo_Marshal_reset3)
  note rot = SaveState_rotates [OF gs3 ma f3 sv]
  have fw: "faults w' = (\<lambda>n. 0)"
    by (simp add: rot(5) w3_def w2_def w1_def world_good_def world0_def)
  have rc: "resetCmd demo_env ''/repo'' world_good = (None, w')"
    using sv rot(1)
    by (simp add: resetCmd_def canon_repo l DeleteAllInstances_def Let_def)
  show "fst (resetCmd demo_env ''/repo'' world_good) = None"
    by (simp add: rc)
  show "no_faults (snd (resetCmd demo_env ''/repo'' world_good))"
    by (simp add: rc no_faults_def fault_at_def fw)
qed

lemma reset_good_load:
  "fst (LoadState demo_env ''/repo'' (snd (resetCmd demo_env ''/repo'' world_good)))
     = \<lparr>HelpScreensSeen = 3, InstancesData = ''[]'', repoPath = ''/repo''\<rparr>"
proof -
  let ?s = "\<lparr>HelpScreensSeen = 3, InstancesData = raw_one, repoPath = ''/repo''\<rparr>"
  obtain e s' w' where dl: "DeleteAllInstances demo_env ?s
      (snd (LoadState demo_env ''/repo'' world_good)) = (e, s', w')"
    by (metis prod_cases3)
  have rc: "resetCmd demo_env ''/repo'' world_good = (e, w')"
    using dl reset_good_run(2)
    by (cases e) (simp_all add: resetCmd_def canon_repo reset_good_run(1))
  have e: "e = None" using reset_good_run(2) rc by simp
  have un: "Unmarshal demo_env doc_reset3
              = Some \<lparr>HelpScreensSeen = 3, InstancesData = ''[]'', repoPath = []\<rparr>"
    by (simp add: demo_defs)
  have "fst (LoadState demo_env ''/repo'' w')
          = \<lparr>HelpScreensSeen = 3, InstancesData = ''[]'', repoPath = []\<rparr>\<lparr>repoPath := ''/repo''\<rparr>"
  proof (rule load_after_delete [OF dl [unfolded e] _ _ un])
    show "GetCanonicalRepoPath demo_env (repoPath ?s) = GetCanonicalRepoPath demo_env ''/repo''"
      by simp
    show "MarshalIndent demo_env (?s\<lparr>InstancesData := ''[]''\<rparr>) = Inr doc_reset3"
      by (simp add: demo_Marshal_reset3)
    show "no_faults w'" using reset_good_run(3) rc by simp
  qed
  then show ?thesis by (simp add: rc)
qed

text \<open>
  C6, as the claim states it, fails: a repository that had seen help screens keeps
  them through a reset, so the state loaded afterwards is not the default one.
\<close>

theorem reset_then_load_counterexample:
  "fst (resetCmd demo_env ''/repo'' world_good) = None
   \<and> HelpScreensSeen (fst (LoadState demo_env ''/repo''
                              (snd (resetCmd demo_env ''/repo'' world_good)))) = 3
   \<and> HelpScreensSeen DefaultState = 0
   \<and> fst (LoadState demo_env ''/repo'' (snd (resetCmd demo_env ''/repo'' world_good)))
       \<noteq> DefaultState\<lparr>repoPath := ''/repo''\<rparr>"
  by (simp add: reset_good_run(2) reset_good_load DefaultState_def)

text \<open>
  C6, amended. When the store part of the reset succeeds on a loaded state that
  carries the repository's path (or a path with the same canonical path), the codec
  reads back what it wrote, and no system call of the later load is refused, that load
  returns a state whose instances are \<^verbatim>\<open>[]\<close> and whose seen help screens are those of
  the state loaded before the reset: the default state exactly when none had been
  seen.
\<close>

theorem reset_then_load:
  assumes rs: "resetCmd E cur w = (None, w')"
    and cp: "GetCanonicalRepoPath E cur = Inr rp"
    and ls: "LoadState E rp w = (s, w1)"
    and cn: "GetCanonicalRepoPath E (repoPath s) = GetCanonicalRepoPath E rp"
    and ma: "MarshalIndent E (s\<lparr>InstancesData := ''[]''\<rparr>) = Inr data"
    and un: "Unmarshal E data = Some u"
    and rt: "HelpScreensSeen u = HelpScreensSeen s" "InstancesData u = ''[]''"
    and nf: "no_faults w'"
  shows "InstancesData (fst (LoadState E rp w')) = ''[]''
       \<and> HelpScreensSeen (fst (LoadState E rp w')) = HelpScreensSeen s
       \<and> repoPath (fst (LoadState E rp w')) = rp
       \<and> (HelpScreensSeen s = 0 \<longrightarrow> fst (LoadState E rp w') = DefaultState\<lparr>repoPath := rp\<rparr>)"
proof -
  obtain e s' v where dl: "DeleteAllInstances E s w1 = (e, s', v)"
    by (metis prod_cases3)
  have "e = None \<and> v = w'"
    using rs dl by (cases e) (simp_all add: resetCmd_def cp ls)
  with dl have dl': "DeleteAllInstances E s w1 = (None, s', w')" by simp
  have l: "fst (LoadState E rp w') = u\<lparr>repoPath := rp\<rparr>"
    by (rule load_after_delete [OF dl' cn ma un nf])
  show ?thesis
    using rt by (simp add: l DefaultState_def)
qed

theorem reset_then_load_witness:
  "fst (resetCmd demo_env ''/repo'' world_good) = None
   \<and> fst (LoadState demo_env ''/repo'' world_good)
       = \<lparr>HelpScreensSeen = 3, InstancesData = raw_one, repoPath = ''/repo''\<rparr>
   \<and> InstancesData (fst (LoadState demo_env ''/repo''
                            (snd (resetCmd demo_env ''/repo'' world_good)))) = ''[]''
   \<and> HelpScreensSeen (fst (LoadState demo_env ''/repo''
                              (snd (resetCmd demo_env ''/repo'' world_good)))) = 3"
proof -
  let ?s = "\<lparr>HelpScreensSeen = 3, InstancesData = raw_one, repoPath = ''/repo''\<rparr>"
  have rs: "resetCmd demo_env ''/repo'' world_good
              = (None, snd (resetCmd demo_env ''/repo'' world_good))"
    using reset_good_run(2) by (simp add: prod_eq_iff)
  have cn: "GetCanonicalRepoPath demo_env (repoPath ?s) = GetCanonicalRepoPath demo_env ''/repo''"
    by simp
  have ma: "MarshalIndent demo_env (?s\<lparr>InstancesData := ''[]''\<rparr>) = Inr doc_reset3"
    by (simp add: demo_Marshal_reset3)
  have un: "Unmarshal demo_env doc_reset3
              = Some \<lparr>HelpScreensSeen = 3, InstancesData = ''[]'', repoPath = []\<rparr>"
    by (simp add: demo_defs)
  from reset_then_load [OF rs canon_repo reset_good_run(1) cn ma un _ _ reset_good_run(3)]
  show ?thesis
    by (simp add: reset_good_run(1,2))
qed

section \<open>Acquiring the lock\<close>

lemma acquireLockPlatform_held:
  assumes "handles w f = Some (p, off)" and "flocks w p = Some h" and "h \<noteq> f"
    and "acquireLockPlatform f w = (r, w')"
  shows "r = Some (Errorf ''lock is held by another process: %w''
                     (Some (if fault_at 0 w = 0 then ErrWouldBlock else ErrOther)))"
    and "flocks w' = flocks w" and "files w' = files w" and "faults w' = faults w"
    and "trace w' = trace w @ [SysFlock f]" and "handles w' = handles w"
  using assms by (auto simp: acquireLockPlatform_def sys_Flock_def step_def split: if_splits)

lemma acquireLockPlatform_free:
  assumes "handles w f = Some (p, off)" and "flocks w p = None" and "fault_at 0 w = 0"
  shows "acquireLockPlatform f w
           = (None, w\<lparr>flocks := (flocks w)(p \<mapsto> f), trace := trace w @ [SysFlock f]\<rparr>)"
  using assms by (auto simp: acquireLockPlatform_def sys_Flock_def step_def)

lemma readPIDFromLockFile_frame:
  assumes "readPIDFromLockFile p w = (r, w')"
  shows "flocks w' = flocks w" and "files w' = files w" and "faults w' = faults w"
    and "trace w' = trace w @ [SysReadFile p]"
    and "fault_at 0 w = 0 \<Longrightarrow> files w p = Some content \<Longrightarrow>
           r = (case Atoi (TrimSpace content) of None \<Rightarrow> [] | Some _ \<Rightarrow> TrimSpace content)"
  using assms
  by (auto simp: readPIDFromLockFile_def os_ReadFile_def step_def Let_def
      split: if_splits option.splits)

lemma AcquireLock_held:
  assumes gs: "GetStateDir E rp w = (Inr d, w1)"
    and held: "flocks w1 (Join d ''cs.lock'') = Some h" and older: "h < next_handle w1"
    and al: "AcquireLock E pid rp w = (r, w')"
  shows "\<exists>e. r = Inl e" and "flocks w' (Join d ''cs.lock'') = Some h"
    and "handles w' h = handles w1 h" and "faults w' = faults w1"
    and "fault_at 0 w1 = 0 \<Longrightarrow> fault_at 3 w1 = 0 \<Longrightarrow> files w1 (Join d ''cs.lock'') = Some content
           \<Longrightarrow> r = (case Atoi (TrimSpace content) of
              Some _ \<Rightarrow> Inl (Errorf (''another cs instance is running in this repo (PID ''
                                      @ TrimSpace content @ '')'') None)
            | None \<Rightarrow> Inl (Errorf ''failed to acquire lock: %w''
                             (Some (Errorf ''lock is held by another process: %w''
                                      (Some (if fault_at 1 w1 = 0 then ErrWouldBlock else ErrOther))))))"
proof -
  let ?lp = "Join d ''cs.lock''"
  obtain ro w2 where op: "os_OpenFile ?lp 420 w1 = (ro, w2)"
    by (cases "os_OpenFile ?lp 420 w1")
  note o = os_OpenFile_frame [OF op]
  have "(\<exists>e. r = Inl e) \<and> flocks w' ?lp = Some h \<and> handles w' h = handles w1 h
      \<and> faults w' = faults w1
      \<and> (fault_at 0 w1 = 0 \<longrightarrow> fault_at 3 w1 = 0 \<longrightarrow> files w1 ?lp = Some content
           \<longrightarrow> r = (case Atoi (TrimSpace content) of
              Some _ \<Rightarrow> Inl (Errorf (''another cs instance is running in this repo (PID ''
                                      @ TrimSpace content @ '')'') None)
            | None \<Rightarrow> Inl (Errorf ''failed to acquire lock: %w''
                             (Some (Errorf ''lock is held by another process: %w''
                                      (Some (if fault_at 1 w1 = 0 then ErrWouldBlock else ErrOther)))))))"
  proof (cases ro)
    case (Inl e)
    then have "r = Inl (Errorf ''failed to open lock file: %w'' (Some e)) \<and> w' = w2"
      using al op by (auto simp: AcquireLock_def gs Let_def)
    moreover have "fault_at 0 w1 \<noteq> 0" using o(6) Inl by auto
    moreover have "handles w2 = handles w1"
      using op Inl by (auto simp: os_OpenFile_def step_def split: if_splits)
    ultimately show ?thesis using o(1) o(2) held by auto
  next
    case (Inr f)
    from o(5) [OF Inr] have f: "f = next_handle w1" "handles w2 f = Some (?lp, 0)" by auto
    have hf: "h \<noteq> f" using older f(1) by simp
    have h2: "flocks w2 ?lp = Some h" using o(1) held by simp
    obtain rf w3 where ap: "acquireLockPlatform f w2 = (rf, w3)"
      by (cases "acquireLockPlatform f w2")
    note a = acquireLockPlatform_held [OF f(2) h2 hf ap]
    obtain rc w4 where cl: "file_Close f w3 = (rc, w4)" by (cases "file_Close f w3")
    note c = file_Close_frame [OF cl]
    obtain pidStr w5 where rp: "readPIDFromLockFile ?lp w4 = (pidStr, w5)"
      by (cases "readPIDFromLockFile ?lp w4")
    note p = readPIDFromLockFile_frame [OF rp]
    have res: "r = (if pidStr \<noteq> []
                    then Inl (Errorf (''another cs instance is running in this repo (PID ''
                                      @ pidStr @ '')'') None)
                    else Inl (Errorf ''failed to acquire lock: %w''
                             (Some (Errorf ''lock is held by another process: %w''
                                      (Some (if fault_at 0 w2 = 0 then ErrWouldBlock else ErrOther))))))
               \<and> w' = w5"
      using al op Inr ap cl rp a(1) by (auto simp: AcquireLock_def gs Let_def)
    have fl: "flocks w' ?lp = Some h"
      using res p(1) c(4) [of ?lp h] a(2) h2 hf by simp
    have f12: "fault_at 0 w2 = fault_at 1 w1"
      using fault_at_shift [OF o(2) o(3), of 0] by simp
    have msg: "r = (case Atoi (TrimSpace content) of
              Some _ \<Rightarrow> Inl (Errorf (''another cs instance is running in this repo (PID ''
                                      @ TrimSpace content @ '')'') None)
            | None \<Rightarrow> Inl (Errorf ''failed to acquire lock: %w''
                             (Some (Errorf ''lock is held by another process: %w''
                                      (Some (if fault_at 1 w1 = 0 then ErrWouldBlock else ErrOther))))))"
      if "fault_at 0 w1 = 0" "fault_at 3 w1 = 0" "files w1 ?lp = Some content"
    proof -
      have t4: "trace w4 = trace w1 @ [SysOpenFile ?lp 420, SysFlock f, SysClose f]"
        using o(3) a(5) c(3) by simp
      have "faults w4 = faults w1" using o(2) a(4) c(2) by simp
      from fault_at_shift [OF this t4, of 0] that(2)
      have f4: "fault_at 0 w4 = 0" by (simp add: numeral_3_eq_3)
      have c4: "files w4 ?lp = Some content"
        using that(3) o(4) [of ?lp] a(3) c(1) by simp
      have "pidStr = (case Atoi (TrimSpace content) of None \<Rightarrow> [] | Some _ \<Rightarrow> TrimSpace content)"
        using p(5) [OF f4 c4] .
      then show ?thesis
        using res f12 by (cases "Atoi (TrimSpace content)") (auto simp: Atoi_empty)
    qed
    have "handles w2 h = handles w1 h"
      using op hf f(1) by (auto simp: os_OpenFile_def step_def split: if_splits)
    moreover have "handles w4 h = handles w3 h"
      using cl hf
      by (auto simp: file_Close_def release_handle_def step_def split: if_splits option.splits)
    moreover have "handles w5 = handles w4"
      using rp
      by (auto simp: readPIDFromLockFile_def os_ReadFile_def step_def Let_def
          split: if_splits option.splits)
    ultimately have hh: "handles w' h = handles w1 h"
      using res a(6) by simp
    have "faults w' = faults w1" using res p(3) c(2) a(4) o(2) by simp
    with res fl msg hh show ?thesis by auto
  qed
  then show "\<exists>e. r = Inl e" and "flocks w' (Join d ''cs.lock'') = Some h"
    and "handles w' h = handles w1 h" and "faults w' = faults w1"
    and "fault_at 0 w1 = 0 \<Longrightarrow> fault_at 3 w1 = 0 \<Longrightarrow> files w1 (Join d ''cs.lock'') = Some content
           \<Longrightarrow> r = (case Atoi (TrimSpace content) of
              Some _ \<Rightarrow> Inl (Errorf (''another cs instance is running in this repo (PID ''
                                      @ TrimSpace content @ '')'') None)
            | None \<Rightarrow> Inl (Errorf ''failed to acquire lock: %w''
                             (Some (Errorf ''lock is held by another process: %w''
                                      (Some (if fault_at 1 w1 = 0 then ErrWouldBlock else ErrOther))))))"
    by auto
qed

lemma write_pid_frame:
  assumes w7: "w7 = (case file_Truncate f 0 w3 of
                   (Some _, w4) \<Rightarrow> w4
                 | (None, w4) \<Rightarrow>
                     (case file_Seek f 0 w4 of
                        (Some _, w5) \<Rightarrow> w5
                      | (None, w5) \<Rightarrow>
                          (case file_Write f d w5 of (_, w6) \<Rightarrow> snd (file_Sync f w6))))"
  shows "flocks w7 = flocks w3" and "next_handle w7 = next_handle w3"
    and "faults w7 = faults w3" and "\<exists>cs. trace w7 = trace w3 @ cs"
    and "handles w3 f = Some (p, off) \<Longrightarrow> \<exists>off'. handles w7 f = Some (p, off')"
    and "handles w3 f = Some (p, off) \<Longrightarrow> files w3 p \<noteq> None \<Longrightarrow> fault_at 0 w3 = 0
           \<Longrightarrow> fault_at 1 w3 = 0 \<Longrightarrow> fault_at 2 w3 = 0 \<Longrightarrow> files w7 p = Some d"
proof -
  obtain r4 w4 where tr: "file_Truncate f 0 w3 = (r4, w4)" by (cases "file_Truncate f 0 w3")
  note t = file_Truncate_frame [OF tr]
  obtain r5 w5 where sk: "file_Seek f 0 w4 = (r5, w5)" by (cases "file_Seek f 0 w4")
  note s = file_Seek_frame [OF sk]
  obtain r6 w6 where wr: "file_Write f d w5 = (r6, w6)" by (cases "file_Write f d w5")
  note x = file_Write_frame [OF wr]
  obtain r7 w7' where sy: "file_Sync f w6 = (r7, w7')" by (cases "file_Sync f w6")
  note y = file_Sync_frame [OF sy]
  have w7eq: "w7 = (if r4 \<noteq> None then w4 else if r5 \<noteq> None then w5 else w7')"
    using w7 tr sk wr sy by (auto split: option.splits)
  have all: "flocks w7 = flocks w3 \<and> next_handle w7 = next_handle w3 \<and> faults w7 = faults w3
        \<and> (\<exists>cs. trace w7 = trace w3 @ cs)"
    unfolding w7eq using t(1-4) s(1-4) x(1-4) y(1-4) by auto
  then show "flocks w7 = flocks w3" and "next_handle w7 = next_handle w3"
    and "faults w7 = faults w3" and "\<exists>cs. trace w7 = trace w3 @ cs"
    by auto
  show "\<exists>off'. handles w7 f = Some (p, off')" if h: "handles w3 f = Some (p, off)"
  proof -
    have h4: "handles w4 f = Some (p, off)" using h t(5) by simp
    from s(6) [OF h4] obtain o5 where h5: "handles w5 f = Some (p, o5)" by blast
    from x(5) [OF h5] obtain o6 where h6: "handles w6 f = Some (p, o6)" by blast
    show ?thesis unfolding w7eq using h4 h5 h6 y(6) by auto
  qed
  show "files w7 p = Some d"
    if h: "handles w3 f = Some (p, off)" and fp: "files w3 p \<noteq> None"
      and f0: "fault_at 0 w3 = 0" and f1: "fault_at 1 w3 = 0" and f2: "fault_at 2 w3 = 0"
  proof -
    from t(7) [OF h f0 fp] have r4: "r4 = None" and c4: "files w4 p = Some []" by auto
    have h4: "handles w4 f = Some (p, off)" using h t(5) by simp
    have f04: "fault_at 0 w4 = 0"
      using fault_at_shift [OF t(3) t(4), of 0] f1 by simp
    from s(7) [OF h4 f04] have r5: "r5 = None" and h5: "handles w5 f = Some (p, 0)" by auto
    have c5: "files w5 p = Some []" using c4 s(5) by simp
    have t5: "trace w5 = trace w3 @ [SysTruncate f 0, SysSeek f 0]" using t(4) s(4) by simp
    have "faults w5 = faults w3" using t(3) s(3) by simp
    from fault_at_shift [OF this t5, of 0] f2 have f05: "fault_at 0 w5 = 0"
      by (simp add: numeral_2_eq_2)
    from x(6) [OF h5 f05 c5] have "files w6 p = Some d" .
    then show ?thesis unfolding w7eq using r4 r5 y(5) by simp
  qed
qed

lemma AcquireLock_free:
  assumes gs: "GetStateDir E rp w = (Inr d, w1)"
    and free: "flocks w1 (Join d ''cs.lock'') = None"
    and f: "fault_at 0 w1 = 0" "fault_at 1 w1 = 0"
    and al: "AcquireLock E pid rp w = (r, w')"
  shows "r = Inr \<lparr>lockFile = Some (next_handle w1), filePath = Join d ''cs.lock''\<rparr>"
    and "flocks w' (Join d ''cs.lock'') = Some (next_handle w1)"
    and "\<exists>off. handles w' (next_handle w1) = Some (Join d ''cs.lock'', off)"
    and "next_handle w' = Suc (next_handle w1)"
    and "faults w' = faults w1" and "\<exists>cs. trace w' = trace w1 @ cs"
    and "fault_at 2 w1 = 0 \<Longrightarrow> fault_at 3 w1 = 0 \<Longrightarrow> fault_at 4 w1 = 0
           \<Longrightarrow> files w' (Join d ''cs.lock'') = Some (itoa pid @ [CHR 0x0A])"
proof -
  let ?lp = "Join d ''cs.lock''" and ?f = "next_handle w1"
  obtain ro w2 where op: "os_OpenFile ?lp 420 w1 = (ro, w2)"
    by (cases "os_OpenFile ?lp 420 w1")
  note o = os_OpenFile_frame [OF op]
  have ro: "ro = Inr ?f" using o(6) [OF f(1)] .
  from o(5) [OF ro] have h2: "handles w2 ?f = Some (?lp, 0)" and c2: "files w2 ?lp \<noteq> None"
    by auto
  have n2: "next_handle w2 = Suc ?f"
    using op f(1) by (auto simp: os_OpenFile_def step_def split: if_splits)
  have fl2: "flocks w2 ?lp = None" using o(1) free by simp
  have f02: "fault_at 0 w2 = 0"
    using fault_at_shift [OF o(2) o(3), of 0] f(2) by simp
  define w3 where "w3 = w2\<lparr>flocks := (flocks w2)(?lp \<mapsto> ?f), trace := trace w2 @ [SysFlock ?f]\<rparr>"
  have ap: "acquireLockPlatform ?f w2 = (None, w3)"
    using acquireLockPlatform_free [OF h2 fl2 f02] by (simp add: w3_def)
  define w7 where "w7 = (case file_Truncate ?f 0 w3 of
                   (Some _, w4) \<Rightarrow> w4
                 | (None, w4) \<Rightarrow>
                     (case file_Seek ?f 0 w4 of
                        (Some _, w5) \<Rightarrow> w5
                      | (None, w5) \<Rightarrow>
                          (case file_Write ?f (itoa pid @ [CHR 0x0A]) w5 of
                             (_, w6) \<Rightarrow> snd (file_Sync ?f w6))))"
  note p = write_pid_frame [OF w7_def]
  have res: "r = Inr \<lparr>lockFile = Some ?f, filePath = ?lp\<rparr> \<and> w' = w7"
    using al op [unfolded ro] ap by (simp add: AcquireLock_def gs Let_def w7_def)
  have h3: "handles w3 ?f = Some (?lp, 0)" using h2 by (simp add: w3_def)
  have c3: "files w3 ?lp \<noteq> None" using c2 by (simp add: w3_def)
  have t3: "trace w3 = trace w1 @ [SysOpenFile ?lp 420, SysFlock ?f]"
    using o(3) by (simp add: w3_def)
  have fa3: "faults w3 = faults w1" using o(2) by (simp add: w3_def)
  show "r = Inr \<lparr>lockFile = Some ?f, filePath = ?lp\<rparr>" using res by simp
  show "flocks w' ?lp = Some ?f" using res p(1) by (simp add: w3_def)
  show "\<exists>off. handles w' ?f = Some (?lp, off)" using res p(5) [OF h3] by simp
  show "next_handle w' = Suc ?f" using res p(2) n2 by (simp add: w3_def)
  show "faults w' = faults w1" using res p(3) fa3 by simp
  show "\<exists>cs. trace w' = trace w1 @ cs" using res p(4) t3 by auto
  show "files w' ?lp = Some (itoa pid @ [CHR 0x0A])"
    if "fault_at 2 w1 = 0" "fault_at 3 w1 = 0" "fault_at 4 w1 = 0"
  proof -
    have "fault_at 0 w3 = 0" "fault_at 1 w3 = 0" "fault_at 2 w3 = 0"
      using fault_at_shift [OF fa3 t3] that by (simp_all add: eval_nat_numeral)
    from p(6) [OF h3 c3 this] res show ?thesis by simp
  qed
qed

lemma Release_released:
  assumes "Release l w = (None, l', w')"
  shows "lockFile l' = None" and "Release l' v = (None, l', v)"
  using assms
  by (auto simp: Release_def IsNotExist_def split: option.splits prod.splits if_splits)

lemma Release_run:
  assumes lf: "lockFile l = Some f" and h: "handles w f = Some (filePath l, off)"
    and f: "fault_at 0 w = 0" "fault_at 1 w = 0"
    and rl: "Release l w = (r, l', w')"
  shows "r = None" and "l' = l\<lparr>lockFile := None\<rparr>"
    and "trace w' = trace w @ [SysClose f, SysRemove (filePath l)]"
    and "files w' (filePath l) = None" and "handles w' f = None"
    and "flocks w (filePath l) = Some f \<Longrightarrow> flocks w' (filePath l) = None"
    and "faults w' = faults w"
  using rl lf h f unfolding fault_at_nums
  by (auto simp: Release_def file_Close_def release_handle_def os_Remove_def step_def
      fault_at_def IsNotExist_def split: option.splits prod.splits if_splits)


text \<open>The three steps of the example.\<close>

lemma lock_demo_A:
  "fst (AcquireLock demo_env 100 ''/repo'' world0) = Inr \<lparr>lockFile = Some 3, filePath = lock0\<rparr>"
  "flocks worldA lock0 = Some 3" "\<exists>off. handles worldA 3 = Some (lock0, off)"
  "next_handle worldA = 4" "faults worldA = (\<lambda>n. 0)"
  "files worldA lock0 = Some (''100'' @ [CHR 0x0A])"
proof -
  define w1 where "w1 = world0\<lparr>dirs := insert stateDir0 (dirs world0),
        files := (files world0)(gitignore0 \<mapsto> [CHR ''*'', CHR 0x0A]),
        trace := trace world0 @ [SysMkdirAll stateDir0 493, SysStat gitignore0,
                                 SysWriteFile gitignore0 [CHR ''*'', CHR 0x0A] 420]\<rparr>"
  have gs: "GetStateDir demo_env ''/repo'' world0 = (Inr stateDir0, w1)"
    using GetStateDir_run_absent [OF canon_repo, of world0] unfolding w1_def
    by (simp add: dir0) (simp add: world0_def fault_at_def gitignore0_def)
  have fw: "faults w1 = (\<lambda>n. 0)" "flocks w1 (Join stateDir0 ''cs.lock'') = None"
    "next_handle w1 = 3"
    by (simp_all add: w1_def world0_def)
  note a = AcquireLock_free [where pid = 100, OF gs fw(2) no_faults_at [OF fw(1)]
      no_faults_at [OF fw(1)] surjective_pairing]
  show "fst (AcquireLock demo_env 100 ''/repo'' world0) = Inr \<lparr>lockFile = Some 3, filePath = lock0\<rparr>"
    using a(1) by (simp add: fw(3) lock0_eq)
  show "flocks worldA lock0 = Some 3" using a(2) by (simp add: worldA_def fw(3) lock0_eq)
  show "\<exists>off. handles worldA 3 = Some (lock0, off)"
    using a(3) by (simp add: worldA_def fw(3) lock0_eq)
  show "next_handle worldA = 4" using a(4) by (simp add: worldA_def fw(3))
  show "faults worldA = (\<lambda>n. 0)" using a(5) by (simp add: worldA_def fw(1))
  show "files worldA lock0 = Some (''100'' @ [CHR 0x0A])"
    using a(7) [OF no_faults_at [OF fw(1)] no_faults_at [OF fw(1)] no_faults_at [OF fw(1)]]
    by (simp add: worldA_def lock0_eq itoa_100)
qed

lemma lock_demo_gsA:
  "fst (GetStateDir demo_env ''/repo'' worldA) = Inr stateDir0"
  "flocks (snd (GetStateDir demo_env ''/repo'' worldA)) lock0 = Some 3"
  "next_handle (snd (GetStateDir demo_env ''/repo'' worldA)) = 4"
  "faults (snd (GetStateDir demo_env ''/repo'' worldA)) = (\<lambda>n. 0)"
  "files (snd (GetStateDir demo_env ''/repo'' worldA)) lock0 = Some (''100'' @ [CHR 0x0A])"
  "\<exists>off. handles (snd (GetStateDir demo_env ''/repo'' worldA)) 3 = Some (lock0, off)"
proof -
  from GetStateDir_no_faults [OF canon_repo no_faults_const [OF lock_demo_A(5)]]
  obtain w1 where gs: "GetStateDir demo_env ''/repo'' worldA = (Inr stateDir0, w1)"
    and fr: "\<forall>q. q \<noteq> Join stateDir0 ''.gitignore'' \<longrightarrow> files w1 q = files worldA q"
    by (auto simp: dir0)
  note l = GetStateDir_locks [OF gs]
  show "fst (GetStateDir demo_env ''/repo'' worldA) = Inr stateDir0" by (simp add: gs)
  show "flocks (snd (GetStateDir demo_env ''/repo'' worldA)) lock0 = Some 3"
    by (simp add: gs l(1) lock_demo_A(2))
  show "next_handle (snd (GetStateDir demo_env ''/repo'' worldA)) = 4"
    by (simp add: gs l(3) lock_demo_A(4))
  show "faults (snd (GetStateDir demo_env ''/repo'' worldA)) = (\<lambda>n. 0)"
    using GetStateDir_frame(1) [OF gs] by (simp add: gs lock_demo_A(5))
  have "lock0 \<noteq> Join stateDir0 ''.gitignore''"
    by (simp add: lock0_def dir0 gitignore0_def)
  then show "files (snd (GetStateDir demo_env ''/repo'' worldA)) lock0
               = Some (''100'' @ [CHR 0x0A])"
    using fr by (simp add: gs lock_demo_A(6))
  show "\<exists>off. handles (snd (GetStateDir demo_env ''/repo'' worldA)) 3 = Some (lock0, off)"
    using lock_demo_A(3) by (simp add: gs l(2))
qed

lemma lock_demo_B:
  "fst (AcquireLock demo_env 200 ''/repo'' worldA)
     = Inl (Errorf ''another cs instance is running in this repo (PID 100)'' None)"
  "flocks worldB lock0 = Some 3" "\<exists>off. handles worldB 3 = Some (lock0, off)"
  "faults worldB = (\<lambda>n. 0)"
proof -
  have gs: "GetStateDir demo_env ''/repo'' worldA
              = (Inr stateDir0, snd (GetStateDir demo_env ''/repo'' worldA))"
    using lock_demo_gsA(1) by (simp add: prod_eq_iff)
  have held: "flocks (snd (GetStateDir demo_env ''/repo'' worldA)) (Join stateDir0 ''cs.lock'')
                = Some 3"
    by (simp add: lock0_eq lock_demo_gsA(2))
  have older: "3 < next_handle (snd (GetStateDir demo_env ''/repo'' worldA))"
    by (simp add: lock_demo_gsA(3))
  note b = AcquireLock_held [where pid = 200, OF gs held older surjective_pairing]
  have c: "files (snd (GetStateDir demo_env ''/repo'' worldA)) (Join stateDir0 ''cs.lock'')
             = Some (''100'' @ [CHR 0x0A])"
    by (simp add: lock0_eq lock_demo_gsA(5))
  show "fst (AcquireLock demo_env 200 ''/repo'' worldA)
     = Inl (Errorf ''another cs instance is running in this repo (PID 100)'' None)"
    using b(5) [OF no_faults_at [OF lock_demo_gsA(4)] no_faults_at [OF lock_demo_gsA(4)] c]
    by (simp add: TrimSpace_100)
  show "flocks worldB lock0 = Some 3" using b(2) by (simp add: worldB_def lock0_eq)
  show "\<exists>off. handles worldB 3 = Some (lock0, off)"
    using b(3) lock_demo_gsA(6) by (simp add: worldB_def)
  show "faults worldB = (\<lambda>n. 0)" using b(4) by (simp add: worldB_def lock_demo_gsA(4))
qed





section \<open>Releasing twice\<close>

text \<open>
  C10. Once a call of \<open>Release\<close> has returned nil, the handle holds no file, and every
  later call on it returns nil and leaves the world as it is: no system call is made.
  A first call on an open handle whose close and removal are not refused closes the
  file, then removes the lock file, and returns nil, also when the lock file is already
  missing at that time.
\<close>

theorem Release_idempotent:
  "(\<forall>l' w'. Release l w = (None, l', w') \<longrightarrow>
       lockFile l' = None \<and> (\<forall>v. Release l' v = (None, l', v)))
   \<and> (\<forall>f off. lockFile l = Some f \<and> handles w f = Some (filePath l, off)
         \<and> fault_at 0 w = 0 \<and> fault_at 1 w = 0 \<longrightarrow>
         fst (Release l w) = None \<and> fst (snd (Release l w)) = l\<lparr>lockFile := None\<rparr>
         \<and> trace (snd (snd (Release l w))) = trace w @ [SysClose f, SysRemove (filePath l)]
         \<and> files (snd (snd (Release l w))) (filePath l) = None
         \<and> handles (snd (snd (Release l w))) f = None)
   \<and> (\<forall>f off. lockFile l = Some f \<and> handles w f = Some (filePath l, off)
         \<and> fault_at 0 w = 0 \<and> fault_at 1 w = 0 \<and> files w (filePath l) = None \<longrightarrow>
         fst (Release l w) = None)"
proof -
  have 1: "\<forall>l' w'. Release l w = (None, l', w') \<longrightarrow>
       lockFile l' = None \<and> (\<forall>v. Release l' v = (None, l', v))"
    using Release_released by blast
  have rl: "Release l w = (fst (Release l w), fst (snd (Release l w)), snd (snd (Release l w)))"
    by simp
  have 2: "\<forall>f off. lockFile l = Some f \<and> handles w f = Some (filePath l, off)
         \<and> fault_at 0 w = 0 \<and> fault_at 1 w = 0 \<longrightarrow>
         fst (Release l w) = None \<and> fst (snd (Release l w)) = l\<lparr>lockFile := None\<rparr>
         \<and> trace (snd (snd (Release l w))) = trace w @ [SysClose f, SysRemove (filePath l)]
         \<and> files (snd (snd (Release l w))) (filePath l) = None
         \<and> handles (snd (snd (Release l w))) f = None"
    using Release_run(1-5) [OF _ _ _ _ rl] by blast
  from 1 2 show ?thesis by blast
qed

theorem Release_idempotent_witness:
  "fst (Release \<lparr>lockFile = Some 3, filePath = lock0\<rparr> worldB) = None
   \<and> fst (snd (Release \<lparr>lockFile = Some 3, filePath = lock0\<rparr> worldB))
       = \<lparr>lockFile = None, filePath = lock0\<rparr>
   \<and> files worldC lock0 = None
   \<and> Release \<lparr>lockFile = None, filePath = lock0\<rparr> worldC
       = (None, \<lparr>lockFile = None, filePath = lock0\<rparr>, worldC)
   \<and> fst (Release \<lparr>lockFile = None, filePath = lock0\<rparr> worldC) = None
   \<and> fst (Release \<lparr>lockFile = Some 3, filePath = lock0\<rparr>
             (worldB\<lparr>files := (files worldB)(lock0 := None)\<rparr>)) = None"
proof -
  let ?l = "\<lparr>lockFile = Some 3, filePath = lock0\<rparr>"
  let ?m = "worldB\<lparr>files := (files worldB)(lock0 := None)\<rparr>"
  from lock_demo_B(3) obtain off where h: "handles worldB 3 = Some (lock0, off)" by auto
  have f: "fault_at 0 worldB = 0" "fault_at 1 worldB = 0"
    by (simp_all add: no_faults_at [OF lock_demo_B(4)])
  have a: "lockFile ?l = Some 3 \<and> handles worldB 3 = Some (filePath ?l, off)
         \<and> fault_at 0 worldB = 0 \<and> fault_at 1 worldB = 0"
    using h f by simp
  note t = Release_idempotent [of ?l worldB]
  from t a have 1: "fst (Release ?l worldB) = None
      \<and> fst (snd (Release ?l worldB)) = ?l\<lparr>lockFile := None\<rparr>
      \<and> files (snd (snd (Release ?l worldB))) (filePath ?l) = None"
    by blast
  then have rl: "Release ?l worldB = (None, \<lparr>lockFile = None, filePath = lock0\<rparr>, worldC)"
    by (simp add: worldC_def prod_eq_iff)
  from t rl have 2: "Release \<lparr>lockFile = None, filePath = lock0\<rparr> worldC
       = (None, \<lparr>lockFile = None, filePath = lock0\<rparr>, worldC)"
    by blast
  have b: "lockFile ?l = Some 3 \<and> handles ?m 3 = Some (filePath ?l, off)
         \<and> fault_at 0 ?m = 0 \<and> fault_at 1 ?m = 0 \<and> files ?m (filePath ?l) = None"
    using h f by (simp add: fault_at_def)
  from Release_idempotent [of ?l ?m] b have 3: "fst (Release ?l ?m) = None"
    by blast
  from 1 2 3 show ?thesis by (simp add: worldC_def)
qed

section \<open>The passes of the daemon\<close>








end
